theory Spec2Isabelle
  imports Main "HOL-Library.Word"
begin

section \<open>JavaScript strings\<close>

text \<open>
  A JavaScript string is a sequence of UTF-16 code units. \<open>length\<close>, \<open>slice\<close>,
  \<open>startsWith\<close>, \<open>trim\<close> and the regular expressions of the sources (none of them has
  the \<open>u\<close> flag) all work on code units, so a string is modelled as a list of 16-bit
  words. \<open>js\<close> embeds an ASCII literal.
\<close>

type_synonym jschar = "16 word"
type_synonym jsstring = "jschar list"

definition js :: "string \<Rightarrow> jsstring" where
  "js s = map (\<lambda>c. of_nat (of_char c)) s"

text \<open>
  The code units that \<open>String.prototype.trim\<close> strips and that \<open>\s\<close> matches:
  ECMAScript WhiteSpace (TAB, VT, FF, SP, NBSP, ZWNBSP and the category Zs) together with
  the LineTerminators (LF, CR, LS, PS).
\<close>

definition isLineTerminator :: "jschar \<Rightarrow> bool" where
  "isLineTerminator c \<longleftrightarrow> c = 0x0A \<or> c = 0x0D \<or> c = 0x2028 \<or> c = 0x2029"

definition isWhiteSpace :: "jschar \<Rightarrow> bool" where
  "isWhiteSpace c \<longleftrightarrow>
     c = 0x09 \<or> c = 0x0B \<or> c = 0x0C \<or> c = 0x20 \<or> c = 0xA0 \<or> c = 0xFEFF \<or>
     c = 0x1680 \<or> (0x2000 \<le> c \<and> c \<le> 0x200A) \<or> c = 0x202F \<or> c = 0x205F \<or> c = 0x3000 \<or>
     isLineTerminator c"

text \<open>\<open>\d\<close> is \<open>[0-9]\<close>, \<open>\w\<close> is \<open>[A-Za-z0-9_]\<close>, and \<open>.\<close> (no \<open>s\<close> flag) is any code unit
  that is not a LineTerminator.\<close>

definition isDigit :: "jschar \<Rightarrow> bool" where
  "isDigit c \<longleftrightarrow> 0x30 \<le> c \<and> c \<le> 0x39"

definition isWordChar :: "jschar \<Rightarrow> bool" where
  "isWordChar c \<longleftrightarrow>
     (0x41 \<le> c \<and> c \<le> 0x5A) \<or> (0x61 \<le> c \<and> c \<le> 0x7A) \<or> isDigit c \<or> c = 0x5F"

definition isDot :: "jschar \<Rightarrow> bool" where
  "isDot c \<longleftrightarrow> \<not> isLineTerminator c"

definition trim :: "jsstring \<Rightarrow> jsstring" where
  "trim s = rev (dropWhile isWhiteSpace (rev (dropWhile isWhiteSpace s)))"

definition startsWith :: "jsstring \<Rightarrow> jsstring \<Rightarrow> bool" where
  "startsWith s p \<longleftrightarrow> take (length p) s = p"

text \<open>\<open>s.slice(n)\<close> for a non-negative \<open>n\<close>.\<close>

definition slice_str :: "jsstring \<Rightarrow> nat \<Rightarrow> jsstring" where
  "slice_str s n = drop n s"

text \<open>\<open>s.split("\n")\<close>: the pieces between line feeds; the empty string gives one empty
  piece.\<close>

fun split_acc :: "jschar \<Rightarrow> jsstring \<Rightarrow> jsstring \<Rightarrow> jsstring list" where
  "split_acc sep cur [] = [rev cur]"
| "split_acc sep cur (c # cs) =
     (if c = sep then rev cur # split_acc sep [] cs else split_acc sep (c # cur) cs)"

definition split :: "jsstring \<Rightarrow> jschar \<Rightarrow> jsstring list" where
  "split s sep = split_acc sep [] s"

text \<open>
  \<open>toLowerCase\<close> on the ASCII letters. The sources apply it only to a field label that
  \<open>\w+\<close> has matched, which holds ASCII word characters only; there it is the whole of
  the Unicode lower-casing.
\<close>

definition toLowerCase :: "jsstring \<Rightarrow> jsstring" where
  "toLowerCase s = map (\<lambda>c. if 0x41 \<le> c \<and> c \<le> 0x5A then c + 0x20 else c) s"

text \<open>JavaScript truthiness of an optional string: defined and not empty.\<close>

definition truthy :: "jsstring option \<Rightarrow> bool" where
  "truthy v \<longleftrightarrow> (case v of None \<Rightarrow> False | Some s \<Rightarrow> s \<noteq> [])"

section \<open>Regular expressions of the sources\<close>

text \<open>
  Both patterns of the sources are anchored at \<open>^\<close> and \<open>$\<close> (no \<open>m\<close> flag: start and end
  of the input) and are a sequence of character classes, each with a greedy repetition
  count and possibly a capture group around it. \<open>Rep c lo hi g\<close> is the class \<open>c\<close> repeated
  \<open>lo\<close> to \<open>hi\<close> times (\<open>None\<close>: unbounded), captured when \<open>g\<close>. The matcher backtracks as
  the JavaScript one does: a repetition first takes as much as it can and gives code units
  back one at a time until the rest of the pattern matches.
\<close>

datatype rx_item = Rep "jschar \<Rightarrow> bool" nat "nat option" bool

definition lit :: "char \<Rightarrow> rx_item" where
  "lit c = Rep (\<lambda>x. x = of_nat (of_char c)) 1 (Some 1) False"

definition first_some :: "'a option list \<Rightarrow> 'a option" where
  "first_some xs = (case filter (\<lambda>x. x \<noteq> None) xs of [] \<Rightarrow> None | x # _ \<Rightarrow> x)"

fun candidates :: "rx_item \<Rightarrow> jsstring \<Rightarrow> nat list" where
  "candidates (Rep c l h g) s =
     (let n = length (takeWhile c s);
          m = (case h of None \<Rightarrow> n | Some k \<Rightarrow> min n k)
      in rev [l ..< Suc m])"

fun captured :: "rx_item \<Rightarrow> bool" where
  "captured (Rep c l h g) = g"

fun rx_match :: "rx_item list \<Rightarrow> jsstring \<Rightarrow> jsstring list option" where
  "rx_match [] s = (if s = [] then Some [] else None)"
| "rx_match (it # items) s =
     first_some (map (\<lambda>k. map_option (\<lambda>caps. if captured it then take k s # caps else caps)
                                      (rx_match items (drop k s)))
                     (candidates it s))"

section \<open>Address resolver\<close>

text \<open>\<open>/^\d{17,20}$/\<close>\<close>

definition snowflake_rx :: "rx_item list" where
  "snowflake_rx = [Rep isDigit 17 (Some 20) False]"

text \<open>\<open>extractChannelId\<close>: \<open>undefined\<close> is \<open>None\<close>.\<close>

definition extractChannelId :: "jsstring \<Rightarrow> jsstring option" where
  "extractChannelId to =
     (let trimmed = trim to in
      if startsWith trimmed (js ''channel:'') then Some (trim (slice_str trimmed 8))
      else if rx_match snowflake_rx trimmed \<noteq> None then Some trimmed
      else None)"

section \<open>Errors\<close>

text \<open>
  Every \<open>throw\<close> and every rejected promise is a value. The two validation errors of the
  webhook transport and its two transport errors keep the data their messages
  interpolate (HTTP status and response text). \<open>InvalidURL\<close> is the \<open>TypeError\<close> of
  \<open>new URL\<close>, \<open>InvalidPathArg\<close> the \<open>TypeError\<close> of \<open>path.join\<close> on a non-string, and
  \<open>Rejected\<close> is a rejection raised inside an external collaborator (\<open>fetch\<close>,
  \<open>response.json\<close>, \<open>readFile\<close>, \<open>loadWebMedia\<close>, the bot-API client), with the reason the
  collaborator gives.
\<close>

datatype error =
    EmptyMessage
  | EmptyChunkResult
  | WebhookFailed nat jsstring
  | WebhookFileUploadFailed nat jsstring
  | InvalidURL
  | InvalidPathArg
  | Rejected jsstring

section \<open>Data model\<close>

text \<open>JSON values: the \<open>unknown\<close> embeds and the \<open>Record<string, unknown>\<close> payloads, whose
  keys keep their insertion order.\<close>

datatype json =
    JNull
  | JBool bool
  | JNum int
  | JStr jsstring
  | JArr "json list"
  | JObj "(jsstring \<times> json) list"

type_synonym payload = "(jsstring \<times> json) list"

text \<open>\<open>obj[k] = v\<close> on an object literal: an existing key keeps its place, a new key goes
  last.\<close>

fun obj_set :: "payload \<Rightarrow> jsstring \<Rightarrow> json \<Rightarrow> payload" where
  "obj_set [] k v = [(k, v)]"
| "obj_set ((k', v') # kvs) k v =
     (if k' = k then (k, v) # kvs else (k', v') # obj_set kvs k v)"

record WebhookIdentity =
  username :: "jsstring option"
  avatarUrl :: "jsstring option"

text \<open>\<open>ChunkMode\<close> is declared in a module outside these sources; at run time it is a
  string.\<close>

type_synonym ChunkMode = jsstring

record WebhookSendOptions =
  webhookUrl :: jsstring
  identity :: "WebhookIdentity option"
  replyTo :: "jsstring option"
  threadId :: "jsstring option"
  maxLinesPerMessage :: "int option"
  chunkMode :: "ChunkMode option"
  embeds :: "json list option"

record WebhookSendResult =
  messageId :: jsstring
  channelId :: jsstring

record AgentIdentity =
  name :: jsstring
  emoji :: "jsstring option"
  creature :: "jsstring option"
  vibe :: "jsstring option"
  avatar :: "jsstring option"

text \<open>What \<open>loadWebMedia\<close> resolves to.\<close>

record WebMedia =
  buffer :: "8 word list"
  fileName :: "jsstring option"
  mimeType :: "jsstring option"

text \<open>A parsed URL: its query parameters, in order, and everything else of it.\<close>

record url =
  url_rest :: jsstring
  searchParams :: "(jsstring \<times> jsstring) list"

text \<open>\<open>URLSearchParams.set\<close>: the first pair of that name takes the value and the other
  pairs of that name go; with no such pair, the pair is appended.\<close>

fun searchParams_set ::
  "(jsstring \<times> jsstring) list \<Rightarrow> jsstring \<Rightarrow> jsstring \<Rightarrow> (jsstring \<times> jsstring) list" where
  "searchParams_set [] k v = [(k, v)]"
| "searchParams_set ((k', v') # ps) k v =
     (if k' = k then (k, v) # filter (\<lambda>p. fst p \<noteq> k) ps
      else (k', v') # searchParams_set ps k v)"

text \<open>An outgoing HTTP request. A JSON body is kept as the object that
  \<open>JSON.stringify\<close> serialises; a multipart body is the list of its parts.\<close>

datatype form_part =
    JsonText payload
  | Blob "8 word list" jsstring jsstring

datatype body =
    JsonBody payload
  | FormData "(jsstring \<times> form_part) list"

record request =
  rq_url :: url
  rq_method :: jsstring
  rq_headers :: "(jsstring \<times> jsstring) list"
  rq_body :: body

text \<open>
  An HTTP response: its status, what \<open>text()\<close> resolves to (\<open>None\<close>: it rejects) and
  what \<open>json()\<close> resolves to, read at the type of the sources' cast
  \<open>{ id: string; channel_id: string }\<close>. \<open>response.ok\<close> is a status from 200 to 299.
\<close>

record response =
  status :: nat
  text_result :: "jsstring option"
  json_result :: "jsstring + (jsstring \<times> jsstring)"

definition ok :: "response \<Rightarrow> bool" where
  "ok r \<longleftrightarrow> 200 \<le> status r \<and> status r \<le> 299"

datatype fetch_result = FetchRejected jsstring | FetchResolved response

text \<open>Options and result of the bot-API client.\<close>

record BotSendOptions =
  verbose :: bool
  bot_mediaUrl :: "jsstring option"
  bot_replyTo :: "jsstring option"
  bot_accountId :: "jsstring option"

type_synonym BotSender = "jsstring \<Rightarrow> jsstring \<Rightarrow> BotSendOptions \<Rightarrow> jsstring + WebhookSendResult"

text \<open>
  The collaborators outside these sources, as parameters of the model: the process
  environment, the file system, the URL parser, the network, the media loader, the text
  chunker and the default bot-API client. \<open>fetch\<close> answers a request in view of the
  requests the call has sent before it.
\<close>

record world =
  env_HOME :: "jsstring option"
  readFile :: "jsstring \<Rightarrow> jsstring + jsstring"
  URL_parse :: "jsstring \<Rightarrow> url option"
  fetch :: "request list \<Rightarrow> request \<Rightarrow> fetch_result"
  loadWebMedia :: "jsstring \<Rightarrow> jsstring + WebMedia"
  chunkDiscordTextWithMode :: "jsstring \<Rightarrow> nat \<Rightarrow> int option \<Rightarrow> ChunkMode option \<Rightarrow> jsstring list"
  sendMessageDiscord :: BotSender

text \<open>The configuration, down to the one field that is read:
  \<open>channels.discord.guilds.<guildId>.channels.<channelId>.webhook\<close>. The guilds are in
  the order \<open>Object.values\<close> enumerates them.\<close>

record ChannelConfig =
  webhook :: "jsstring option"

record GuildConfig =
  guild_channels :: "(jsstring \<times> ChannelConfig) list option"

record DiscordConfig =
  guilds :: "(jsstring \<times> GuildConfig) list option"

record ChannelsConfig =
  discord :: "DiscordConfig option"

record OpenClawConfig =
  channels :: "ChannelsConfig option"

record Deps =
  sendDiscord :: "BotSender option"

record ChannelOutboundContext =
  to :: jsstring
  ctx_text :: jsstring
  mediaUrl :: "jsstring option"
  cfg :: OpenClawConfig
  accountId :: "jsstring option"
  deps :: "Deps option"
  replyToId :: "jsstring option"
  agentId :: "jsstring option"

record DeliveryReceipt = WebhookSendResult +
  channel :: jsstring

text \<open>\<open>a ?? b\<close>\<close>

definition nullish_or :: "'a option \<Rightarrow> 'a option \<Rightarrow> 'a option" where
  "nullish_or a b = (case a of None \<Rightarrow> b | Some x \<Rightarrow> Some x)"

section \<open>POSIX \<open>path.join\<close>\<close>

text \<open>
  \<open>join\<close> of \<open>node:path\<close> on a POSIX system: the non-empty arguments joined with \<open>/\<close>,
  then normalised (empty and \<open>.\<close> segments dropped, \<open>..\<close> removing the segment before
  it, a trailing slash kept).
\<close>

fun intercalate :: "jsstring \<Rightarrow> jsstring list \<Rightarrow> jsstring" where
  "intercalate sep [] = []"
| "intercalate sep [x] = x"
| "intercalate sep (x # y # zs) = x @ sep @ intercalate sep (y # zs)"

fun normalizeString :: "bool \<Rightarrow> jsstring list \<Rightarrow> jsstring list \<Rightarrow> jsstring list" where
  "normalizeString allowAboveRoot res [] = rev res"
| "normalizeString allowAboveRoot res (seg # segs) =
     (if seg = [] \<or> seg = js ''.'' then normalizeString allowAboveRoot res segs
      else if seg = js ''..'' then
        (case res of
           [] \<Rightarrow> normalizeString allowAboveRoot (if allowAboveRoot then [seg] else []) segs
         | r # rs \<Rightarrow>
             if r = js ''..'' then
               normalizeString allowAboveRoot (if allowAboveRoot then seg # res else res) segs
             else normalizeString allowAboveRoot rs segs)
      else normalizeString allowAboveRoot (seg # res) segs)"

definition normalize :: "jsstring \<Rightarrow> jsstring" where
  "normalize path =
     (case path of
        [] \<Rightarrow> js ''.''
      | c # _ \<Rightarrow>
          let isAbsolute = (c = 0x2F);
              trailingSeparator = (last path = 0x2F);
              p = intercalate (js ''/'') (normalizeString (\<not> isAbsolute) [] (split path 0x2F))
          in if p = [] then (if isAbsolute then js ''/'' else if trailingSeparator then js ''./'' else js ''.'')
             else (if isAbsolute then js ''/'' else []) @ p @ (if trailingSeparator then js ''/'' else []))"

definition path_join :: "jsstring list \<Rightarrow> jsstring" where
  "path_join args =
     (let joined = filter (\<lambda>a. a \<noteq> []) args
      in if joined = [] then js ''.'' else normalize (intercalate (js ''/'') joined))"

section \<open>Agent identity resolver\<close>

text \<open>\<open>/^\s*-\s*\*\*(\w+):\*\*\s*(.+)$/\<close>\<close>

definition identity_rx :: "rx_item list" where
  "identity_rx =
     [Rep isWhiteSpace 0 None False, lit CHR ''-'', Rep isWhiteSpace 0 None False,
      lit CHR ''*'', lit CHR ''*'', Rep isWordChar 1 None True, lit CHR '':'',
      lit CHR ''*'', lit CHR ''*'', Rep isWhiteSpace 0 None False, Rep isDot 1 None True]"

text \<open>The five variables that the loop of \<open>parseIdentityMd\<close> assigns.\<close>

record IdentityFields =
  f_name :: "jsstring option"
  f_emoji :: "jsstring option"
  f_creature :: "jsstring option"
  f_vibe :: "jsstring option"
  f_avatar :: "jsstring option"

text \<open>One iteration of the loop: a line that does not match is skipped; a matching line
  assigns the variable its lower-cased label names, and no variable for any other label.\<close>

definition parse_line :: "IdentityFields \<Rightarrow> jsstring \<Rightarrow> IdentityFields" where
  "parse_line st line =
     (case rx_match identity_rx line of
        Some [field, val] \<Rightarrow>
          (let trimmedValue = trim val; label = toLowerCase field in
           if label = js ''name'' then st\<lparr>f_name := Some trimmedValue\<rparr>
           else if label = js ''emoji'' then st\<lparr>f_emoji := Some trimmedValue\<rparr>
           else if label = js ''creature'' then st\<lparr>f_creature := Some trimmedValue\<rparr>
           else if label = js ''vibe'' then st\<lparr>f_vibe := Some trimmedValue\<rparr>
           else if label = js ''avatar'' then st\<lparr>f_avatar := Some trimmedValue\<rparr>
           else st)
      | _ \<Rightarrow> st)"

definition parseIdentityMd :: "jsstring \<Rightarrow> AgentIdentity option" where
  "parseIdentityMd content =
     (let lines = split content 0x0A;
          st = foldl parse_line
                 \<lparr>f_name = None, f_emoji = None, f_creature = None, f_vibe = None, f_avatar = None\<rparr>
                 lines
      in case f_name st of
           None \<Rightarrow> None
         | Some n \<Rightarrow>
             if n = [] then None
             else Some \<lparr>name = n, emoji = f_emoji st, creature = f_creature st,
                        vibe = f_vibe st, avatar = f_avatar st\<rparr>)"

text \<open>A line that the loop of \<open>parseIdentityMd\<close> takes for the field \<open>label\<close>: it matches
  the pattern and its label, lower-cased, is \<open>label\<close>.\<close>

definition is_field_line :: "jsstring \<Rightarrow> jsstring \<Rightarrow> bool" where
  "is_field_line label line =
     (case rx_match identity_rx line of
        Some [field, val] \<Rightarrow> toLowerCase field = label
      | _ \<Rightarrow> False)"

text \<open>The \<open>try\<close> block of \<open>loadAgentIdentity\<close>, and the function with its \<open>catch\<close>.\<close>

definition loadAgentIdentity_try :: "world \<Rightarrow> jsstring \<Rightarrow> error + AgentIdentity option" where
  "loadAgentIdentity_try w workspaceDir =
     (let identityPath = path_join [workspaceDir, js ''IDENTITY.md''] in
      case readFile w identityPath of
        Inl e \<Rightarrow> Inl (Rejected e)
      | Inr content \<Rightarrow> Inr (parseIdentityMd content))"

definition loadAgentIdentity :: "world \<Rightarrow> jsstring \<Rightarrow> error + AgentIdentity option" where
  "loadAgentIdentity w workspaceDir =
     (case loadAgentIdentity_try w workspaceDir of
        Inl e \<Rightarrow> Inr None
      | Inr r \<Rightarrow> Inr r)"

text \<open>
  The workspace directory that \<open>resolveAgentIdentityById\<close> computes. The condition of the
  conditional expression is \<open>baseWorkspaceDir ?? process.env.HOME\<close>; its first branch
  joins \<open>process.env.HOME\<close> (a \<open>TypeError\<close> of \<open>join\<close> when it is not set) with
  \<open>workspace\<close>.
\<close>

definition agentWorkspaceDir :: "world \<Rightarrow> jsstring \<Rightarrow> jsstring option \<Rightarrow> error + jsstring" where
  "agentWorkspaceDir w agentId' baseWorkspaceDir =
     (let base =
        (if truthy (nullish_or baseWorkspaceDir (env_HOME w))
         then (case env_HOME w of
                 None \<Rightarrow> Inl InvalidPathArg
               | Some home \<Rightarrow> Inr (path_join [home, js ''workspace'']))
         else Inr (js ''/home/clawd/workspace''))
      in case base of
           Inl e \<Rightarrow> Inl e
         | Inr b \<Rightarrow> Inr (path_join [b, agentId']))"

definition resolveAgentIdentityById ::
  "world \<Rightarrow> jsstring \<Rightarrow> jsstring option \<Rightarrow> error + AgentIdentity option" where
  "resolveAgentIdentityById w agentId' baseWorkspaceDir =
     (case agentWorkspaceDir w agentId' baseWorkspaceDir of
        Inl e \<Rightarrow> Inl e
      | Inr workspaceDir \<Rightarrow> loadAgentIdentity w workspaceDir)"

definition toWebhookIdentity :: "AgentIdentity \<Rightarrow> jsstring option \<Rightarrow> WebhookIdentity" where
  "toWebhookIdentity ident avatarUrlOverride =
     (let displayName =
        (case emoji ident of
           None \<Rightarrow> name ident
         | Some e \<Rightarrow> if e \<noteq> [] then e @ js '' '' @ name ident else name ident)
      in \<lparr>username = Some displayName,
          avatarUrl = nullish_or avatarUrlOverride (avatar ident)\<rparr>)"

record ResolveOpts =
  baseWorkspaceDir :: "jsstring option"
  avatarUrlOverride :: "jsstring option"

definition resolveWebhookIdentity ::
  "world \<Rightarrow> jsstring \<Rightarrow> ResolveOpts option \<Rightarrow> error + WebhookIdentity option" where
  "resolveWebhookIdentity w agentId' opts =
     (case resolveAgentIdentityById w agentId'
             (case opts of None \<Rightarrow> None | Some ro \<Rightarrow> baseWorkspaceDir ro) of
        Inl e \<Rightarrow> Inl e
      | Inr None \<Rightarrow> Inr None
      | Inr (Some ident) \<Rightarrow>
          Inr (Some (toWebhookIdentity ident
                       (case opts of None \<Rightarrow> None | Some ro \<Rightarrow> avatarUrlOverride ro))))"

section \<open>Webhook transport\<close>

definition DISCORD_TEXT_LIMIT :: nat where
  "DISCORD_TEXT_LIMIT = 2000"

text \<open>The URL both post functions build: \<open>new URL(opts.webhookUrl)\<close> (\<open>None\<close>: it throws),
  \<open>wait=true\<close>, and \<open>thread_id\<close> when \<open>opts.threadId\<close> is truthy.\<close>

definition target_url :: "world \<Rightarrow> WebhookSendOptions \<Rightarrow> url option" where
  "target_url w opts =
     (case URL_parse w (webhookUrl opts) of
        None \<Rightarrow> None
      | Some u \<Rightarrow>
          (let u1 = u\<lparr>searchParams := searchParams_set (searchParams u) (js ''wait'') (js ''true'')\<rparr>
           in case threadId opts of
                None \<Rightarrow> Some u1
              | Some t \<Rightarrow>
                  if t \<noteq> []
                  then Some (u1\<lparr>searchParams := searchParams_set (searchParams u1) (js ''thread_id'') t\<rparr>)
                  else Some u1))"

text \<open>The three conditional assignments both post functions make to their payload:
  \<open>username\<close> and \<open>avatar_url\<close> when the identity has them truthy, \<open>embeds\<close> when
  \<open>opts.embeds?.length\<close> is truthy.\<close>

definition add_username :: "WebhookSendOptions \<Rightarrow> payload \<Rightarrow> payload" where
  "add_username opts p =
     (case identity opts of
        None \<Rightarrow> p
      | Some i \<Rightarrow>
          (case username i of
             None \<Rightarrow> p
           | Some u \<Rightarrow> if u \<noteq> [] then obj_set p (js ''username'') (JStr u) else p))"

definition add_avatar_url :: "WebhookSendOptions \<Rightarrow> payload \<Rightarrow> payload" where
  "add_avatar_url opts p =
     (case identity opts of
        None \<Rightarrow> p
      | Some i \<Rightarrow>
          (case avatarUrl i of
             None \<Rightarrow> p
           | Some a \<Rightarrow> if a \<noteq> [] then obj_set p (js ''avatar_url'') (JStr a) else p))"

definition add_embeds :: "WebhookSendOptions \<Rightarrow> payload \<Rightarrow> payload" where
  "add_embeds opts p =
     (case embeds opts of
        None \<Rightarrow> p
      | Some es \<Rightarrow> if length es \<noteq> 0 then obj_set p (js ''embeds'') (JArr es) else p)"

text \<open>The request of \<open>postWebhookMessage\<close>, when the URL parses.\<close>

definition text_request :: "world \<Rightarrow> jsstring \<Rightarrow> WebhookSendOptions \<Rightarrow> request option" where
  "text_request w content opts =
     (case target_url w opts of
        None \<Rightarrow> None
      | Some u \<Rightarrow>
          Some \<lparr>rq_url = u, rq_method = js ''POST'',
                rq_headers = [(js ''Content-Type'', js ''application/json'')],
                rq_body = JsonBody (add_embeds opts (add_avatar_url opts (add_username opts
                            [(js ''content'', JStr content)])))\<rparr>)"

text \<open>Reading the response: a status that is not \<open>ok\<close> throws the transport error built by
  \<open>mk\<close> from the status and the response text (\<open>unknown error\<close> when the text cannot
  be read); otherwise the parsed body gives the result.\<close>

definition read_response ::
  "(nat \<Rightarrow> jsstring \<Rightarrow> error) \<Rightarrow> response \<Rightarrow> error + WebhookSendResult" where
  "read_response mk r =
     (if \<not> ok r then
        Inl (mk (status r) (case text_result r of None \<Rightarrow> js ''unknown error'' | Some t \<Rightarrow> t))
      else
        (case json_result r of
           Inl e \<Rightarrow> Inl (Rejected e)
         | Inr (i, c) \<Rightarrow> Inr \<lparr>messageId = i, channelId = c\<rparr>))"

text \<open>Sending a built request: the request joins the log of the requests sent.\<close>

definition send_request ::
  "world \<Rightarrow> (nat \<Rightarrow> jsstring \<Rightarrow> error) \<Rightarrow> request list \<Rightarrow> request
     \<Rightarrow> request list \<times> (error + WebhookSendResult)" where
  "send_request w mk log rq =
     (case fetch w log rq of
        FetchRejected e \<Rightarrow> (log @ [rq], Inl (Rejected e))
      | FetchResolved r \<Rightarrow> (log @ [rq], read_response mk r))"

definition postWebhookMessage ::
  "world \<Rightarrow> request list \<Rightarrow> jsstring \<Rightarrow> WebhookSendOptions
     \<Rightarrow> request list \<times> (error + WebhookSendResult)" where
  "postWebhookMessage w log content opts =
     (case text_request w content opts of
        None \<Rightarrow> (log, Inl InvalidURL)
      | Some rq \<Rightarrow> send_request w WebhookFailed log rq)"

text \<open>
  The type a \<open>Blob\<close> gets from \<open>new Blob(parts, { type })\<close>: the empty string when the
  given type has a code unit outside U+0020 to U+007E, and the given type in ASCII lower
  case otherwise.
\<close>

definition blob_type :: "jsstring \<Rightarrow> jsstring" where
  "blob_type t = (if \<exists>c \<in> set t. c < 0x20 \<or> 0x7E < c then [] else toLowerCase t)"

text \<open>The request of \<open>postWebhookMessageWithFile\<close>, when the URL parses: no headers of
  its own, the payload as the part \<open>payload_json\<close>, the file as the part \<open>files[0]\<close>.\<close>

definition file_request ::
  "world \<Rightarrow> jsstring \<Rightarrow> WebMedia \<Rightarrow> WebhookSendOptions \<Rightarrow> request option" where
  "file_request w content media opts =
     (case target_url w opts of
        None \<Rightarrow> None
      | Some u \<Rightarrow>
          (let payload0 = (if content \<noteq> [] then obj_set [] (js ''content'') (JStr content) else []);
               payload = add_embeds opts (add_avatar_url opts (add_username opts payload0))
           in Some \<lparr>rq_url = u, rq_method = js ''POST'', rq_headers = [],
                    rq_body = FormData
                      [(js ''payload_json'', JsonText payload),
                       (js ''files[0]'',
                        Blob (buffer media)
                          (blob_type (case mimeType media of
                                        None \<Rightarrow> js ''application/octet-stream''
                                      | Some m \<Rightarrow> m))
                          (case fileName media of None \<Rightarrow> js ''upload'' | Some f \<Rightarrow> f))]\<rparr>))"

definition postWebhookMessageWithFile ::
  "world \<Rightarrow> request list \<Rightarrow> jsstring \<Rightarrow> WebMedia \<Rightarrow> WebhookSendOptions
     \<Rightarrow> request list \<times> (error + WebhookSendResult)" where
  "postWebhookMessageWithFile w log content media opts =
     (case file_request w content media opts of
        None \<Rightarrow> (log, Inl InvalidURL)
      | Some rq \<Rightarrow> send_request w WebhookFileUploadFailed log rq)"

text \<open>The chunks of a text send: the chunker's, or the whole text when the chunker gives
  none for a non-empty text.\<close>

definition text_chunks :: "world \<Rightarrow> jsstring \<Rightarrow> WebhookSendOptions \<Rightarrow> jsstring list" where
  "text_chunks w txt opts =
     (let chunks = chunkDiscordTextWithMode w txt DISCORD_TEXT_LIMIT
                     (maxLinesPerMessage opts) (chunkMode opts)
      in if chunks = [] \<and> txt \<noteq> [] then chunks @ [txt] else chunks)"

text \<open>The loop of \<open>sendDiscordWebhookText\<close>, with its variables \<open>isFirst\<close> and
  \<open>lastResult\<close>; a post that throws ends it.\<close>

fun send_chunks ::
  "world \<Rightarrow> WebhookSendOptions \<Rightarrow> request list \<Rightarrow> bool \<Rightarrow> WebhookSendResult option
     \<Rightarrow> jsstring list \<Rightarrow> request list \<times> (error + WebhookSendResult option)" where
  "send_chunks w opts log isFirst lastResult [] = (log, Inr lastResult)"
| "send_chunks w opts log isFirst lastResult (chunk # chunks) =
     (case postWebhookMessage w log chunk
             (opts\<lparr>embeds := (if isFirst then embeds opts else None)\<rparr>) of
        (log', Inl e) \<Rightarrow> (log', Inl e)
      | (log', Inr r) \<Rightarrow> send_chunks w opts log' False (Some r) chunks)"

definition sendDiscordWebhookText ::
  "world \<Rightarrow> jsstring \<Rightarrow> WebhookSendOptions \<Rightarrow> request list \<times> (error + WebhookSendResult)" where
  "sendDiscordWebhookText w txt opts =
     (if trim txt = [] then ([], Inl EmptyMessage)
      else
        (case send_chunks w opts [] True None (text_chunks w txt opts) of
           (log, Inl e) \<Rightarrow> (log, Inl e)
         | (log, Inr None) \<Rightarrow> (log, Inl EmptyChunkResult)
         | (log, Inr (Some r)) \<Rightarrow> (log, Inr r)))"

text \<open>The request of a text send for the chunk at position \<open>k\<close>, when the URL parses: the
  embeds of the options go with position 0 only.\<close>

definition chunk_request :: "world \<Rightarrow> WebhookSendOptions \<Rightarrow> jsstring list \<Rightarrow> nat \<Rightarrow> request option" where
  "chunk_request w opts chunks k =
     text_request w (chunks ! k) (opts\<lparr>embeds := (if k = 0 then embeds opts else None)\<rparr>)"

text \<open>The chunks of a media send: none for an empty text.\<close>

definition media_chunks :: "world \<Rightarrow> jsstring \<Rightarrow> WebhookSendOptions \<Rightarrow> jsstring list" where
  "media_chunks w txt opts =
     (let chunks = (if txt \<noteq> []
                    then chunkDiscordTextWithMode w txt DISCORD_TEXT_LIMIT
                           (maxLinesPerMessage opts) (chunkMode opts)
                    else [])
      in if chunks = [] \<and> txt \<noteq> [] then chunks @ [txt] else chunks)"

text \<open>The loop of \<open>sendDiscordWebhookMedia\<close> over \<open>chunks.slice(1)\<close>: a blank chunk is
  skipped, any other is posted with the options as they came.\<close>

fun send_followups ::
  "world \<Rightarrow> WebhookSendOptions \<Rightarrow> request list \<Rightarrow> jsstring list
     \<Rightarrow> request list \<times> (error + unit)" where
  "send_followups w opts log [] = (log, Inr ())"
| "send_followups w opts log (chunk # chunks) =
     (if trim chunk = [] then send_followups w opts log chunks
      else
        (case postWebhookMessage w log chunk opts of
           (log', Inl e) \<Rightarrow> (log', Inl e)
         | (log', Inr r) \<Rightarrow> send_followups w opts log' chunks))"

definition sendDiscordWebhookMedia ::
  "world \<Rightarrow> jsstring \<Rightarrow> jsstring \<Rightarrow> WebhookSendOptions
     \<Rightarrow> request list \<times> (error + WebhookSendResult)" where
  "sendDiscordWebhookMedia w txt mediaUrl' opts =
     (case loadWebMedia w mediaUrl' of
        Inl e \<Rightarrow> ([], Inl (Rejected e))
      | Inr media \<Rightarrow>
          (let chunks = media_chunks w txt opts;
               caption = (case chunks of [] \<Rightarrow> [] | c # _ \<Rightarrow> c)
           in case postWebhookMessageWithFile w [] caption media (opts\<lparr>embeds := embeds opts\<rparr>) of
                (log, Inl e) \<Rightarrow> (log, Inl e)
              | (log, Inr result) \<Rightarrow>
                  (case send_followups w opts log (drop 1 chunks) of
                     (log', Inl e) \<Rightarrow> (log', Inl e)
                   | (log', Inr u) \<Rightarrow> (log', Inr result))))"

section \<open>Delivery orchestrator\<close>

text \<open>The loop of \<open>resolveWebhookUrl\<close> over the guilds.\<close>

fun scan_guilds :: "GuildConfig list \<Rightarrow> jsstring \<Rightarrow> jsstring option" where
  "scan_guilds [] cid = None"
| "scan_guilds (guildConfig # rest) cid =
     (case guild_channels guildConfig of
        None \<Rightarrow> scan_guilds rest cid
      | Some chans \<Rightarrow>
          (case map_of chans cid of
             None \<Rightarrow> scan_guilds rest cid
           | Some channelConfig \<Rightarrow>
               if truthy (webhook channelConfig) then webhook channelConfig
               else scan_guilds rest cid))"

definition resolveWebhookUrl :: "OpenClawConfig \<Rightarrow> jsstring \<Rightarrow> jsstring option" where
  "resolveWebhookUrl c cid =
     (case channels c of
        None \<Rightarrow> None
      | Some chs \<Rightarrow>
          (case discord chs of
             None \<Rightarrow> None
           | Some d \<Rightarrow>
               (case guilds d of
                  None \<Rightarrow> None
                | Some gs \<Rightarrow> scan_guilds (map snd gs) cid)))"

text \<open>
  What one call of the orchestrator does: the transports it invokes with their
  arguments, the HTTP requests the webhook transport sends, and the outcome for the
  caller.
\<close>

datatype transport_call =
    WebhookText jsstring WebhookSendOptions
  | WebhookMedia jsstring jsstring WebhookSendOptions
  | BotApi jsstring jsstring BotSendOptions

record delivery =
  transports :: "transport_call list"
  requests :: "request list"
  outcome :: "error + DeliveryReceipt"

text \<open>\<open>{ channel: "discord", ...result }\<close>\<close>

definition receipt :: "error + WebhookSendResult \<Rightarrow> error + DeliveryReceipt" where
  "receipt r =
     (case r of
        Inl e \<Rightarrow> Inl e
      | Inr res \<Rightarrow> Inr \<lparr>messageId = messageId res, channelId = channelId res,
                         channel = js ''discord''\<rparr>)"

text \<open>\<open>channelId ? resolveWebhookUrl(cfg, channelId) : undefined\<close>\<close>

definition webhook_for :: "ChannelOutboundContext \<Rightarrow> jsstring option" where
  "webhook_for ctx =
     (case extractChannelId (to ctx) of
        None \<Rightarrow> None
      | Some cid \<Rightarrow> if cid \<noteq> [] then resolveWebhookUrl (cfg ctx) cid else None)"

text \<open>\<open>deps?.sendDiscord ?? sendMessageDiscord\<close>\<close>

definition bot_sender :: "world \<Rightarrow> ChannelOutboundContext \<Rightarrow> BotSender" where
  "bot_sender w ctx =
     (case deps ctx of
        None \<Rightarrow> sendMessageDiscord w
      | Some d \<Rightarrow> (case sendDiscord d of None \<Rightarrow> sendMessageDiscord w | Some f \<Rightarrow> f))"

text \<open>The fall-back to the bot API, shared by both sends; \<open>m\<close> is the \<open>mediaUrl\<close> option
  (absent in a text send).\<close>

definition bot_fallback ::
  "world \<Rightarrow> ChannelOutboundContext \<Rightarrow> jsstring option \<Rightarrow> delivery" where
  "bot_fallback w ctx m =
     (let bopts = \<lparr>verbose = False, bot_mediaUrl = m, bot_replyTo = replyToId ctx,
                   bot_accountId = accountId ctx\<rparr>
      in \<lparr>transports = [BotApi (to ctx) (ctx_text ctx) bopts],
          requests = [],
          outcome = receipt (case bot_sender w ctx (to ctx) (ctx_text ctx) bopts of
                               Inl e \<Rightarrow> Inl (Rejected e)
                             | Inr r \<Rightarrow> Inr r)\<rparr>)"

text \<open>The options the orchestrator passes to the webhook transport:
  \<open>{ webhookUrl, identity }\<close>.\<close>

definition webhook_opts :: "jsstring \<Rightarrow> WebhookIdentity \<Rightarrow> WebhookSendOptions" where
  "webhook_opts u i =
     \<lparr>webhookUrl = u, identity = Some i, replyTo = None, threadId = None,
      maxLinesPerMessage = None, chunkMode = None, embeds = None\<rparr>"

definition sendTextWithWebhookFallback :: "world \<Rightarrow> ChannelOutboundContext \<Rightarrow> delivery" where
  "sendTextWithWebhookFallback w ctx =
     (case (webhook_for ctx, agentId ctx) of
        (Some u, Some a) \<Rightarrow>
          if u \<noteq> [] \<and> a \<noteq> [] then
            (case resolveWebhookIdentity w a None of
               Inl e \<Rightarrow> \<lparr>transports = [], requests = [], outcome = Inl e\<rparr>
             | Inr (Some i) \<Rightarrow>
                 (case sendDiscordWebhookText w (ctx_text ctx) (webhook_opts u i) of
                    (log, result) \<Rightarrow>
                      \<lparr>transports = [WebhookText (ctx_text ctx) (webhook_opts u i)],
                       requests = log, outcome = receipt result\<rparr>)
             | Inr None \<Rightarrow> bot_fallback w ctx None)
          else bot_fallback w ctx None
      | _ \<Rightarrow> bot_fallback w ctx None)"

definition sendMediaWithWebhookFallback :: "world \<Rightarrow> ChannelOutboundContext \<Rightarrow> delivery" where
  "sendMediaWithWebhookFallback w ctx =
     (case (webhook_for ctx, agentId ctx, mediaUrl ctx) of
        (Some u, Some a, Some m) \<Rightarrow>
          if u \<noteq> [] \<and> a \<noteq> [] \<and> m \<noteq> [] then
            (case resolveWebhookIdentity w a None of
               Inl e \<Rightarrow> \<lparr>transports = [], requests = [], outcome = Inl e\<rparr>
             | Inr (Some i) \<Rightarrow>
                 (case sendDiscordWebhookMedia w (ctx_text ctx) m (webhook_opts u i) of
                    (log, result) \<Rightarrow>
                      \<lparr>transports = [WebhookMedia (ctx_text ctx) m (webhook_opts u i)],
                       requests = log, outcome = receipt result\<rparr>)
             | Inr None \<Rightarrow> bot_fallback w ctx (mediaUrl ctx))
          else bot_fallback w ctx (mediaUrl ctx)
      | _ \<Rightarrow> bot_fallback w ctx (mediaUrl ctx))"

section \<open>Conditions in the words of the specification\<close>

text \<open>
  The conditions of webhook delivery as the specification words them: a webhook endpoint
  resolves for the destination, an acting-agent identifier is present, and that
  identifier resolves to a display identity. Present, for an optional string, is the
  truthiness the source tests.
\<close>

definition identity_resolves :: "world \<Rightarrow> jsstring option \<Rightarrow> bool" where
  "identity_resolves w a =
     (case a of
        None \<Rightarrow> False
      | Some x \<Rightarrow> (case resolveWebhookIdentity w x None of Inr (Some i) \<Rightarrow> True | _ \<Rightarrow> False))"

definition webhook_conditions :: "world \<Rightarrow> ChannelOutboundContext \<Rightarrow> bool" where
  "webhook_conditions w ctx \<longleftrightarrow>
     truthy (webhook_for ctx) \<and> truthy (agentId ctx) \<and> identity_resolves w (agentId ctx)"


section \<open>Example data\<close>

text \<open>The emoji U+1F525 as its surrogate pair, and the profile of the agent Ember.\<close>

definition fire :: jsstring where
  "fire = [0xD83D, 0xDD25]"

definition ember_profile :: jsstring where
  "ember_profile = js ''- **Name:** Ember'' @ [0x0A] @ js ''- **Emoji:** '' @ fire"

definition ember :: AgentIdentity where
  "ember = \<lparr>name = js ''Ember'', emoji = Some fire, creature = None, vibe = None, avatar = None\<rparr>"

text \<open>
  An environment for the examples: the home directory \<open>/home/u\<close>, a file system that
  holds Ember's profile only, a URL parser that accepts \<open>https://\<close> addresses without a
  query, a webhook that accepts every post and numbers its messages \<open>m\<close>, \<open>m+\<close>, \<open>m++\<close>,
  a media loader that gives three bytes, a chunker that makes a chunk of every line, and
  a bot client that answers \<open>bot\<close>.
\<close>

definition ok_response :: "nat \<Rightarrow> response" where
  "ok_response n =
     \<lparr>status = 200, text_result = Some [],
      json_result = Inr (js ''m'' @ replicate n 0x2B, js ''c1'')\<rparr>"

definition demo_world :: world where
  "demo_world =
     \<lparr>env_HOME = Some (js ''/home/u''),
      readFile = (\<lambda>p. if p = js ''/home/u/workspace/ember/IDENTITY.md'' then Inr ember_profile
                        else Inl (js ''ENOENT'')),
      URL_parse = (\<lambda>s. if startsWith s (js ''https://'')
                         then Some \<lparr>url_rest = s, searchParams = []\<rparr> else None),
      fetch = (\<lambda>log rq. FetchResolved (ok_response (length log))),
      loadWebMedia = (\<lambda>u. Inr \<lparr>buffer = [1, 2, 3], fileName = Some (js ''cat.png''), mimeType = None\<rparr>),
      chunkDiscordTextWithMode = (\<lambda>txt maxChars maxLines mode. split txt 0x0A),
      sendMessageDiscord = (\<lambda>t txt bopts. Inr \<lparr>messageId = js ''bot'', channelId = t\<rparr>)\<rparr>"

text \<open>A profile with an emoji and an avatar whose name line is not a bulleted field.\<close>

definition emoji_only_profile :: jsstring where
  "emoji_only_profile = js ''Name: Ember'' @ [0x0A] @ js ''- **Emoji:** '' @ fire @ [0x0A] @ js ''- **Avatar:** a.png''"

text \<open>Options with an identity and one embed, texts of two and of three lines, the media
  the loader gives, and an environment whose webhook answers 500 to the second post of a
  call.\<close>

definition demo_embed :: json where
  "demo_embed = JObj [(js ''title'', JStr (js ''hello''))]"

definition demo_opts :: WebhookSendOptions where
  "demo_opts =
     \<lparr>webhookUrl = js ''https://discord.test/api/webhooks/1/token'',
      identity = Some \<lparr>username = Some (fire @ js '' Ember''), avatarUrl = None\<rparr>,
      replyTo = None, threadId = None, maxLinesPerMessage = None, chunkMode = None,
      embeds = Some [demo_embed]\<rparr>"

definition two_lines :: jsstring where
  "two_lines = js ''first'' @ [0x0A] @ js ''second''"

definition three_lines :: jsstring where
  "three_lines = js ''first'' @ [0x0A] @ js ''second'' @ [0x0A] @ js ''third''"

definition flaky_world :: world where
  "flaky_world =
     demo_world\<lparr>fetch := (\<lambda>log rq.
        if length log = 1
        then FetchResolved \<lparr>status = 500, text_result = Some (js ''boom''),
                            json_result = Inl (js ''no body'')\<rparr>
        else FetchResolved (ok_response (length log)))\<rparr>"

definition demo_media :: WebMedia where
  "demo_media = \<lparr>buffer = [1, 2, 3], fileName = Some (js ''cat.png''), mimeType = None\<rparr>"

text \<open>The address of the media in the examples, and the requests of the example sends:
  the three posts of the three-line text, the file post with the first line as caption,
  and the posts of the two follow-up lines.\<close>

definition demo_url :: jsstring where
  "demo_url = js ''https://cdn.test/cat.png''"

definition demo_text_requests :: "request list" where
  "demo_text_requests =
     map (\<lambda>k. the (chunk_request flaky_world demo_opts
                      (text_chunks flaky_world three_lines demo_opts) k)) [0, 1, 2]"

definition demo_file_request :: request where
  "demo_file_request = the (file_request flaky_world (js ''first'') demo_media demo_opts)"

definition demo_followup_requests :: "request list" where
  "demo_followup_requests =
     map (\<lambda>c. the (text_request flaky_world c demo_opts)) [js ''second'', js ''third'']"

text \<open>A configuration with a webhook for one channel, and a context that addresses that
  channel on behalf of Ember, with a reply target.\<close>

definition demo_cfg :: OpenClawConfig where
  "demo_cfg =
     \<lparr>channels = Some \<lparr>discord = Some \<lparr>guilds = Some
        [(js ''900000000000000001'',
          \<lparr>guild_channels = Some
             [(js ''123456789012345678'',
               \<lparr>webhook = Some (js ''https://discord.test/api/webhooks/1/token'')\<rparr>)]\<rparr>)]\<rparr>\<rparr>\<rparr>"

definition demo_ctx :: ChannelOutboundContext where
  "demo_ctx =
     \<lparr>to = js ''channel:123456789012345678'', ctx_text = two_lines, mediaUrl = Some demo_url,
      cfg = demo_cfg, accountId = None, deps = None, replyToId = Some (js ''777''),
      agentId = Some (js ''ember'')\<rparr>"

text \<open>A media whose type is written with capitals and that has no file name, and an
  environment whose loader gives it.\<close>

definition png_media :: WebMedia where
  "png_media = \<lparr>buffer = [1, 2, 3], fileName = None, mimeType = Some (js ''Image/PNG'')\<rparr>"

definition png_world :: world where
  "png_world = demo_world\<lparr>loadWebMedia := (\<lambda>u. Inr png_media)\<rparr>"

section \<open>Properties of the address resolver\<close>

lemmas chars = js_def trim_def isWhiteSpace_def isLineTerminator_def isDigit_def

lemma first_some_eq_None: "first_some xs = None \<longleftrightarrow> (\<forall>x \<in> set xs. x = None)"
proof -
  have "filter (\<lambda>x. x \<noteq> None) xs = [] \<longleftrightarrow> (\<forall>x \<in> set xs. x = None)"
    by (simp add: filter_empty_conv)
  moreover have "first_some xs = None \<longleftrightarrow> filter (\<lambda>x. x \<noteq> None) xs = []"
  proof (cases "filter (\<lambda>x. x \<noteq> None) xs")
    case Nil
    then show ?thesis by (simp add: first_some_def)
  next
    case (Cons y ys)
    then have "y \<in> set (filter (\<lambda>x. x \<noteq> None) xs)" by simp
    then have "y \<noteq> None" by simp
    with Cons show ?thesis by (simp add: first_some_def)
  qed
  ultimately show ?thesis by simp
qed

lemma set_candidates:
  "k \<in> set (candidates (Rep c l h g) s) \<longleftrightarrow>
     l \<le> k \<and> k \<le> length (takeWhile c s) \<and> (case h of None \<Rightarrow> True | Some m \<Rightarrow> k \<le> m)"
  by (cases h) (auto simp: Let_def)

lemma rx_match_Cons_None:
  "rx_match (it # items) s = None \<longleftrightarrow>
     (\<forall>k \<in> set (candidates it s). rx_match items (drop k s) = None)"
  by (simp add: first_some_eq_None del: candidates.simps)

lemma takeWhile_all_length: "(\<forall>c \<in> set t. P c) \<longleftrightarrow> length (takeWhile P t) = length t"
proof
  assume "\<forall>c \<in> set t. P c"
  then have tw: "takeWhile P t = t" by (rule takeWhile_eq_all_conv [THEN iffD2])
  show "length (takeWhile P t) = length t" by (simp only: tw)
next
  assume "length (takeWhile P t) = length t"
  then have "takeWhile P t = t"
    by (metis takeWhile_eq_take take_all order_refl)
  then show "\<forall>c \<in> set t. P c" by (rule takeWhile_eq_all_conv [THEN iffD1])
qed

lemma rx_match_Nil_None: "rx_match [] s = None \<longleftrightarrow> s \<noteq> []"
  by simp

lemma snowflake_rx_iff:
  "rx_match snowflake_rx t \<noteq> None \<longleftrightarrow>
     17 \<le> length t \<and> length t \<le> 20 \<and> (\<forall>c \<in> set t. isDigit c)"
proof -
  let ?n = "length (takeWhile isDigit t)"
  have n_le: "?n \<le> length t" by (rule length_takeWhile_le)
  have "rx_match snowflake_rx t \<noteq> None \<longleftrightarrow>
          (\<exists>k. 17 \<le> k \<and> k \<le> ?n \<and> k \<le> 20 \<and> length t \<le> k)"
    unfolding snowflake_rx_def rx_match_Cons_None rx_match_Nil_None Ball_def set_candidates
    by (simp only: drop_eq_Nil option.case not_all not_imp not_not conj_assoc)
  also have "\<dots> \<longleftrightarrow> 17 \<le> length t \<and> length t \<le> 20 \<and> ?n = length t"
  proof
    assume "\<exists>k. 17 \<le> k \<and> k \<le> ?n \<and> k \<le> 20 \<and> length t \<le> k"
    then obtain k where "17 \<le> k" "k \<le> ?n" "k \<le> 20" "length t \<le> k" by blast
    with n_le show "17 \<le> length t \<and> length t \<le> 20 \<and> ?n = length t" by linarith
  next
    assume "17 \<le> length t \<and> length t \<le> 20 \<and> ?n = length t"
    then have "17 \<le> length t \<and> length t \<le> ?n \<and> length t \<le> 20 \<and> length t \<le> length t" by simp
    then show "\<exists>k. 17 \<le> k \<and> k \<le> ?n \<and> k \<le> 20 \<and> length t \<le> k" ..
  qed
  finally show ?thesis by (simp only: takeWhile_all_length)
qed

text \<open>
  C6. For every address: if the trimmed address begins with the literal prefix
  \<open>channel:\<close>, the resolved channel id is the remainder after the prefix, trimmed;
  otherwise, if the whole trimmed address consists of 17 to 20 decimal digits, the
  resolved channel id is the trimmed address itself; every other address resolves to
  nothing (\<open>None\<close>, not an error).
\<close>

theorem extractChannelId_rules:
  "(trim addr = js ''channel:'' @ rest \<longrightarrow> extractChannelId addr = Some (trim rest))
   \<and> ((\<nexists>r. trim addr = js ''channel:'' @ r) \<longrightarrow>
        17 \<le> length (trim addr) \<and> length (trim addr) \<le> 20 \<and> (\<forall>c \<in> set (trim addr). isDigit c) \<longrightarrow>
        extractChannelId addr = Some (trim addr))
   \<and> ((\<nexists>r. trim addr = js ''channel:'' @ r) \<longrightarrow>
        \<not> (17 \<le> length (trim addr) \<and> length (trim addr) \<le> 20 \<and> (\<forall>c \<in> set (trim addr). isDigit c)) \<longrightarrow>
        extractChannelId addr = None)"
proof -
  have len: "length (js ''channel:'') = 8" by (simp add: js_def)
  have sw: "startsWith (trim addr) (js ''channel:'') \<longleftrightarrow> (\<exists>r. trim addr = js ''channel:'' @ r)"
  proof
    assume "startsWith (trim addr) (js ''channel:'')"
    then have "trim addr = js ''channel:'' @ drop 8 (trim addr)"
      unfolding startsWith_def len by (metis append_take_drop_id)
    then show "\<exists>r. trim addr = js ''channel:'' @ r" ..
  next
    assume "\<exists>r. trim addr = js ''channel:'' @ r"
    then obtain r where "trim addr = js ''channel:'' @ r" ..
    then show "startsWith (trim addr) (js ''channel:'')"
      by (simp add: startsWith_def)
  qed
  have a: "trim addr = js ''channel:'' @ rest \<longrightarrow> extractChannelId addr = Some (trim rest)"
  proof
    assume eq: "trim addr = js ''channel:'' @ rest"
    then have "startsWith (trim addr) (js ''channel:'')" using sw by blast
    moreover have "slice_str (trim addr) 8 = rest" using eq len by (simp add: slice_str_def)
    ultimately show "extractChannelId addr = Some (trim rest)"
      by (simp add: extractChannelId_def Let_def)
  qed
  have b: "(\<nexists>r. trim addr = js ''channel:'' @ r) \<longrightarrow>
        17 \<le> length (trim addr) \<and> length (trim addr) \<le> 20 \<and> (\<forall>c \<in> set (trim addr). isDigit c) \<longrightarrow>
        extractChannelId addr = Some (trim addr)"
    using sw snowflake_rx_iff [of "trim addr"] by (simp add: extractChannelId_def Let_def)
  have c: "(\<nexists>r. trim addr = js ''channel:'' @ r) \<longrightarrow>
        \<not> (17 \<le> length (trim addr) \<and> length (trim addr) \<le> 20 \<and> (\<forall>c \<in> set (trim addr). isDigit c)) \<longrightarrow>
        extractChannelId addr = None"
    using sw snowflake_rx_iff [of "trim addr"] by (simp add: extractChannelId_def Let_def)
  from a b c show ?thesis by blast
qed

theorem extractChannelId_rules_witness:
  "trim (js '' channel: 123 '') = js ''channel:'' @ js '' 123''
   \<and> extractChannelId (js '' channel: 123 '') = Some (js ''123'')
   \<and> (\<nexists>r. trim (js ''12345678901234567 '') = js ''channel:'' @ r)
   \<and> length (trim (js ''12345678901234567 '')) = 17
   \<and> extractChannelId (js ''12345678901234567 '') = Some (js ''12345678901234567'')
   \<and> (\<nexists>r. trim (js ''#general'') = js ''channel:'' @ r)
   \<and> extractChannelId (js ''#general'') = None"
proof -
  have t1: "trim (js '' channel: 123 '') = js ''channel:'' @ js '' 123''"
    by (simp add: chars)
  have r1: "trim (js '' 123'') = js ''123''"
    by (simp add: chars)
  have c1: "extractChannelId (js '' channel: 123 '') = Some (js ''123'')"
    using extractChannelId_rules [of "js '' channel: 123 ''" "js '' 123''"] t1 r1 by simp
  have t2: "trim (js ''12345678901234567 '') = js ''12345678901234567''"
    by (simp add: chars)
  have n2: "\<nexists>r. trim (js ''12345678901234567 '') = js ''channel:'' @ r"
    unfolding t2 by (simp add: js_def)
  have d2: "17 \<le> length (trim (js ''12345678901234567 '')) \<and> length (trim (js ''12345678901234567 '')) \<le> 20
            \<and> (\<forall>c \<in> set (trim (js ''12345678901234567 '')). isDigit c)"
    unfolding t2 by (simp add: js_def isDigit_def)
  have c2: "extractChannelId (js ''12345678901234567 '') = Some (js ''12345678901234567'')"
    using extractChannelId_rules [of "js ''12345678901234567 ''"] n2 d2 t2 by simp
  have t3: "trim (js ''#general'') = js ''#general''"
    by (simp add: chars)
  have n3: "\<nexists>r. trim (js ''#general'') = js ''channel:'' @ r"
    unfolding t3 by (simp add: js_def)
  have d3: "\<not> (17 \<le> length (trim (js ''#general'')) \<and> length (trim (js ''#general'')) \<le> 20
            \<and> (\<forall>c \<in> set (trim (js ''#general'')). isDigit c))"
    unfolding t3 by (simp add: js_def)
  have c3: "extractChannelId (js ''#general'') = None"
    using extractChannelId_rules [of "js ''#general''"] n3 d3 by simp
  have l2: "length (trim (js ''12345678901234567 '')) = 17" unfolding t2 by (simp add: js_def)
  from t1 c1 n2 l2 c2 n3 c3 show ?thesis by blast
qed

section \<open>Properties of the identity resolver\<close>

lemma parse_ember: "parseIdentityMd ember_profile = Some ember"
  by code_simp

text \<open>
  C8. For every agent identity, the display name of the derived webhook identity is the
  emoji, one space and the name when the emoji is present (defined and not the empty
  string, as the conditional of the source tests it), and exactly the name otherwise;
  its avatar is the explicit override when one is supplied, else the avatar field of the
  profile, which may be absent. The profile with Name Ember and Emoji U+1F525 gives
  exactly the emoji, a space and Ember.
\<close>

theorem toWebhookIdentity_display:
  "(\<forall>e. emoji ident = Some e \<and> e \<noteq> [] \<longrightarrow>
        username (toWebhookIdentity ident override) = Some (e @ js '' '' @ name ident))
   \<and> (\<not> truthy (emoji ident) \<longrightarrow>
        username (toWebhookIdentity ident override) = Some (name ident))
   \<and> (\<forall>a. override = Some a \<longrightarrow> avatarUrl (toWebhookIdentity ident override) = Some a)
   \<and> (override = None \<longrightarrow> avatarUrl (toWebhookIdentity ident override) = avatar ident)"
  by (cases "emoji ident")
     (simp_all add: toWebhookIdentity_def truthy_def nullish_or_def split: option.splits)

theorem toWebhookIdentity_display_witness:
  "parseIdentityMd ember_profile = Some ember
   \<and> emoji ember = Some fire \<and> fire \<noteq> []
   \<and> username (toWebhookIdentity ember None) = Some (fire @ js '' Ember'')
   \<and> \<not> truthy (emoji (ember\<lparr>emoji := None\<rparr>))
   \<and> username (toWebhookIdentity (ember\<lparr>emoji := None\<rparr>) None) = Some (js ''Ember'')
   \<and> avatarUrl (toWebhookIdentity (ember\<lparr>avatar := Some (js ''a.png'')\<rparr>) (Some (js ''o.png''))) = Some (js ''o.png'')
   \<and> avatarUrl (toWebhookIdentity (ember\<lparr>avatar := Some (js ''a.png'')\<rparr>) None) = Some (js ''a.png'')
   \<and> avatarUrl (toWebhookIdentity ember None) = None"
proof -
  have e: "emoji ember = Some fire \<and> fire \<noteq> []" by (simp add: ember_def fire_def)
  have n: "\<not> truthy (emoji (ember\<lparr>emoji := None\<rparr>))" by (simp add: truthy_def)
  have 1: "username (toWebhookIdentity ember None) = Some (fire @ js '' Ember'')"
    using toWebhookIdentity_display [of ember None] e by (simp add: ember_def js_def)
  have 2: "username (toWebhookIdentity (ember\<lparr>emoji := None\<rparr>) None) = Some (js ''Ember'')"
    using toWebhookIdentity_display [of "ember\<lparr>emoji := None\<rparr>" None] n by (simp add: ember_def)
  have 3: "avatarUrl (toWebhookIdentity (ember\<lparr>avatar := Some (js ''a.png'')\<rparr>) (Some (js ''o.png''))) = Some (js ''o.png'')"
    using toWebhookIdentity_display [of "ember\<lparr>avatar := Some (js ''a.png'')\<rparr>" "Some (js ''o.png'')"] by simp
  have 4: "avatarUrl (toWebhookIdentity (ember\<lparr>avatar := Some (js ''a.png'')\<rparr>) None) = Some (js ''a.png'')"
    using toWebhookIdentity_display [of "ember\<lparr>avatar := Some (js ''a.png'')\<rparr>" None] by simp
  have 5: "avatarUrl (toWebhookIdentity ember None) = None"
    using toWebhookIdentity_display [of ember None] by (simp add: ember_def)
  from parse_ember e n 1 2 3 4 5 show ?thesis by blast
qed

lemma agentWorkspaceDir_override_unused:
  "b1 \<noteq> [] \<Longrightarrow> b2 \<noteq> [] \<Longrightarrow>
     agentWorkspaceDir w a (Some b1) = agentWorkspaceDir w a (Some b2)"
  by (simp add: agentWorkspaceDir_def nullish_or_def truthy_def)

lemma agentWorkspaceDir_override_home:
  "b \<noteq> [] \<Longrightarrow> env_HOME w = Some h \<Longrightarrow>
     agentWorkspaceDir w a (Some b) = Inr (path_join [path_join [h, js ''workspace''], a])"
  by (simp add: agentWorkspaceDir_def nullish_or_def truthy_def)

text \<open>
  C2. The claim: the workspace path joins a base directory with the agent identifier,
  the base being the explicit override when one is supplied, else a directory derived
  from HOME, else \<open>/home/clawd/workspace\<close>. The source tests the override only for
  truthiness and never uses its value: with HOME \<open>/home/u\<close> and the override
  \<open>/srv/agents\<close>, the profile is read from \<open>/home/u/workspace/ember\<close>, not from
  \<open>/srv/agents/ember\<close>; with the override and no HOME, \<open>join\<close> throws.
\<close>

theorem resolveAgentIdentityById_override_ignored:
  "agentWorkspaceDir demo_world (js ''ember'') (Some (js ''/srv/agents''))
     = Inr (js ''/home/u/workspace/ember'')
   \<and> path_join [js ''/srv/agents'', js ''ember''] = js ''/srv/agents/ember''
   \<and> resolveAgentIdentityById demo_world (js ''ember'') (Some (js ''/srv/agents'')) = Inr (Some ember)
   \<and> resolveAgentIdentityById (demo_world\<lparr>env_HOME := None\<rparr>) (js ''ember'') (Some (js ''/srv/agents''))
     = Inl InvalidPathArg"
  by code_simp

lemma parse_line_keeps_name:
  assumes "\<not> is_field_line (js ''name'') line"
  shows "f_name (parse_line st line) = f_name st"
proof (cases "rx_match identity_rx line")
  case None
  then show ?thesis by (simp add: parse_line_def)
next
  case (Some caps)
  show ?thesis
  proof (cases "\<exists>f v. caps = [f, v]")
    case True
    then obtain f v where caps: "caps = [f, v]" by blast
    with Some assms have "toLowerCase f \<noteq> js ''name''"
      by (simp add: is_field_line_def)
    with Some caps show ?thesis
      by (simp add: parse_line_def Let_def)
  next
    case False
    with Some show ?thesis
      by (simp add: parse_line_def split: list.splits)
  qed
qed

lemma foldl_parse_line_name:
  "\<forall>line \<in> set ls. \<not> is_field_line (js ''name'') line \<Longrightarrow>
     f_name (foldl parse_line st ls) = f_name st"
  by (induction ls arbitrary: st) (simp_all add: parse_line_keeps_name)

lemma parseIdentityMd_no_name:
  "\<forall>line \<in> set (split content 0x0A). \<not> is_field_line (js ''name'') line \<Longrightarrow>
     parseIdentityMd content = None"
  by (simp add: parseIdentityMd_def Let_def foldl_parse_line_name)

lemma loadAgentIdentity_total: "\<exists>r. loadAgentIdentity w dir = Inr r"
  by (simp add: loadAgentIdentity_def split: sum.splits)

lemma resolveWebhookIdentity_total: "\<exists>r. resolveWebhookIdentity w a None = Inr r"
proof -
  have "\<exists>d. agentWorkspaceDir w a None = Inr d"
    by (cases "env_HOME w") (simp_all add: agentWorkspaceDir_def nullish_or_def truthy_def)
  then obtain d where "agentWorkspaceDir w a None = Inr d" ..
  moreover obtain r where "loadAgentIdentity w d = Inr r"
    using loadAgentIdentity_total by blast
  ultimately show ?thesis
    by (cases r) (simp_all add: resolveWebhookIdentity_def resolveAgentIdentityById_def)
qed

text \<open>
  C7. Loading an agent identity never raises an error. For every workspace whose profile
  document cannot be read (whatever the error of the read), and for every profile
  document none of whose lines is a recognised Name field, whatever other fields it
  holds, the result is no identity (\<open>None\<close>), neither an error nor a partial identity.
\<close>

theorem loadAgentIdentity_no_identity:
  "(\<exists>r. loadAgentIdentity w dir = Inr r)
   \<and> (\<forall>e. readFile w (path_join [dir, js ''IDENTITY.md'']) = Inl e \<longrightarrow>
          loadAgentIdentity w dir = Inr None)
   \<and> ((\<forall>line \<in> set (split content 0x0A). \<not> is_field_line (js ''name'') line) \<longrightarrow>
          parseIdentityMd content = None \<and>
          (readFile w (path_join [dir, js ''IDENTITY.md'']) = Inr content \<longrightarrow>
             loadAgentIdentity w dir = Inr None))"
proof -
  have a: "\<forall>e. readFile w (path_join [dir, js ''IDENTITY.md'']) = Inl e \<longrightarrow>
          loadAgentIdentity w dir = Inr None"
    by (simp add: loadAgentIdentity_def loadAgentIdentity_try_def)
  have b: "(\<forall>line \<in> set (split content 0x0A). \<not> is_field_line (js ''name'') line) \<longrightarrow>
          parseIdentityMd content = None \<and>
          (readFile w (path_join [dir, js ''IDENTITY.md'']) = Inr content \<longrightarrow>
             loadAgentIdentity w dir = Inr None)"
    by (simp add: loadAgentIdentity_def loadAgentIdentity_try_def parseIdentityMd_no_name)
  from loadAgentIdentity_total a b show ?thesis by blast
qed

lemma emoji_only_no_name:
  "\<forall>line \<in> set (split emoji_only_profile 0x0A). \<not> is_field_line (js ''name'') line"
  by code_simp

theorem loadAgentIdentity_no_identity_witness:
  "readFile demo_world (path_join [js ''/home/u/workspace/nobody'', js ''IDENTITY.md'']) = Inl (js ''ENOENT'')
   \<and> loadAgentIdentity demo_world (js ''/home/u/workspace/nobody'') = Inr None
   \<and> \<not> is_field_line (js ''name'') (js ''Name: Ember'')
   \<and> is_field_line (js ''emoji'') (js ''- **Emoji:** '' @ fire)
   \<and> parseIdentityMd emoji_only_profile = None
   \<and> loadAgentIdentity (demo_world\<lparr>readFile := \<lambda>p. Inr emoji_only_profile\<rparr>) (js ''/home/u/workspace/ember'') = Inr None"
proof -
  have r: "readFile demo_world (path_join [js ''/home/u/workspace/nobody'', js ''IDENTITY.md'']) = Inl (js ''ENOENT'')"
    by code_simp
  have 1: "loadAgentIdentity demo_world (js ''/home/u/workspace/nobody'') = Inr None"
    using loadAgentIdentity_no_identity [of demo_world "js ''/home/u/workspace/nobody''"] r by blast
  have 2: "parseIdentityMd emoji_only_profile = None"
    using loadAgentIdentity_no_identity [of demo_world "[]" emoji_only_profile] emoji_only_no_name by blast
  have 3: "loadAgentIdentity (demo_world\<lparr>readFile := \<lambda>p. Inr emoji_only_profile\<rparr>) (js ''/home/u/workspace/ember'') = Inr None"
    using loadAgentIdentity_no_identity [of "demo_world\<lparr>readFile := \<lambda>p. Inr emoji_only_profile\<rparr>" "js ''/home/u/workspace/ember''" emoji_only_profile]
      emoji_only_no_name by simp
  have 4: "\<not> is_field_line (js ''name'') (js ''Name: Ember'')" by code_simp
  have 5: "is_field_line (js ''emoji'') (js ''- **Emoji:** '' @ fire)" by code_simp
  from r 1 4 5 2 3 show ?thesis by blast
qed

section \<open>Properties of the webhook transport\<close>

lemma fst_send_request: "fst (send_request w mk log rq) = log @ [rq]"
  by (simp add: send_request_def split: fetch_result.splits)

lemma send_request_eq:
  "send_request w mk log rq = (log @ [rq], snd (send_request w mk log rq))"
  by (simp add: prod_eq_iff fst_send_request)

lemma postWebhookMessage_Some:
  "text_request w c opts = Some rq \<Longrightarrow>
     postWebhookMessage w log c opts = (log @ [rq], snd (send_request w WebhookFailed log rq))"
  using send_request_eq [of w WebhookFailed log rq] by (simp add: postWebhookMessage_def)

lemma postWebhookMessage_Inr:
  assumes "postWebhookMessage w log c opts = (log', Inr r)"
  shows "\<exists>rq. text_request w c opts = Some rq \<and> log' = log @ [rq]
              \<and> send_request w WebhookFailed log rq = (log @ [rq], Inr r)"
proof (cases "text_request w c opts")
  case None
  with assms show ?thesis by (simp add: postWebhookMessage_def)
next
  case (Some rq)
  from assms postWebhookMessage_Some [OF Some, of log]
  have "log' = log @ [rq]" "snd (send_request w WebhookFailed log rq) = Inr r" by simp_all
  with Some send_request_eq [of w WebhookFailed log rq] show ?thesis by simp
qed

lemma send_chunks_Inr:
  "send_chunks w opts log first lastR cs = (log', Inr res) \<Longrightarrow>
     \<exists>rqs. log' = log @ rqs \<and> length rqs = length cs \<and> (cs = [] \<longrightarrow> res = lastR) \<and>
       (\<forall>k<length cs.
          text_request w (cs ! k) (opts\<lparr>embeds := (if first \<and> k = 0 then embeds opts else None)\<rparr>)
            = Some (rqs ! k)
          \<and> (\<exists>rk. send_request w WebhookFailed (log @ take k rqs) (rqs ! k)
                     = (log @ take (Suc k) rqs, Inr rk)
                   \<and> (Suc k = length cs \<longrightarrow> res = Some rk)))"
proof (induction cs arbitrary: log first lastR)
  case Nil
  then show ?case by simp
next
  case (Cons c cs)
  let ?o = "opts\<lparr>embeds := (if first then embeds opts else None)\<rparr>"
  obtain log1 out where post: "postWebhookMessage w log c ?o = (log1, out)"
    by (cases "postWebhookMessage w log c ?o")
  with Cons.prems obtain r1 where out: "out = Inr r1"
    by (cases out) simp_all
  from post out Cons.prems
  have rest: "send_chunks w opts log1 False (Some r1) cs = (log', Inr res)" by simp
  from postWebhookMessage_Inr [OF post [unfolded out]]
  obtain rq where rq: "text_request w c ?o = Some rq" "log1 = log @ [rq]"
      "send_request w WebhookFailed log rq = (log @ [rq], Inr r1)" by blast
  from Cons.IH [OF rest] obtain rqs where
    ih: "log' = log1 @ rqs" "length rqs = length cs" "cs = [] \<longrightarrow> res = Some r1"
      "\<forall>k<length cs.
          text_request w (cs ! k) (opts\<lparr>embeds := (if False \<and> k = 0 then embeds opts else None)\<rparr>)
            = Some (rqs ! k)
          \<and> (\<exists>rk. send_request w WebhookFailed (log1 @ take k rqs) (rqs ! k)
                     = (log1 @ take (Suc k) rqs, Inr rk)
                   \<and> (Suc k = length cs \<longrightarrow> res = Some rk))"
    by blast
  have "\<forall>k<length (c # cs).
          text_request w ((c # cs) ! k) (opts\<lparr>embeds := (if first \<and> k = 0 then embeds opts else None)\<rparr>)
            = Some ((rq # rqs) ! k)
          \<and> (\<exists>rk. send_request w WebhookFailed (log @ take k (rq # rqs)) ((rq # rqs) ! k)
                     = (log @ take (Suc k) (rq # rqs), Inr rk)
                   \<and> (Suc k = length (c # cs) \<longrightarrow> res = Some rk))"
  proof (intro allI impI)
    fix k assume k: "k < length (c # cs)"
    show "text_request w ((c # cs) ! k) (opts\<lparr>embeds := (if first \<and> k = 0 then embeds opts else None)\<rparr>)
            = Some ((rq # rqs) ! k)
          \<and> (\<exists>rk. send_request w WebhookFailed (log @ take k (rq # rqs)) ((rq # rqs) ! k)
                     = (log @ take (Suc k) (rq # rqs), Inr rk)
                   \<and> (Suc k = length (c # cs) \<longrightarrow> res = Some rk))"
    proof (cases k)
      case 0
      with rq ih(2,3) show ?thesis by simp
    next
      case (Suc j)
      with k have "j < length cs" by simp
      with ih(4) rq(2) Suc show ?thesis by simp
    qed
  qed
  with ih(1,2) rq(2) show ?case
    by (intro exI [of _ "rq # rqs"]) simp
qed

lemma send_chunks_Inl:
  assumes "length rqs = length cs" "k < length cs"
    "\<forall>j\<le>k. text_request w (cs ! j)
               (opts\<lparr>embeds := (if first \<and> j = 0 then embeds opts else None)\<rparr>) = Some (rqs ! j)"
    "\<forall>j<k. \<exists>rj. snd (send_request w WebhookFailed (log @ take j rqs) (rqs ! j)) = Inr rj"
    "snd (send_request w WebhookFailed (log @ take k rqs) (rqs ! k)) = Inl e"
  shows "send_chunks w opts log first lastR cs = (log @ take (Suc k) rqs, Inl e)"
  using assms
proof (induction cs arbitrary: rqs k log first lastR)
  case Nil
  then show ?case by simp
next
  case (Cons c cs)
  from Cons.prems(1) obtain rq rqs' where rqs: "rqs = rq # rqs'" "length rqs' = length cs"
    by (cases rqs) simp_all
  let ?o = "opts\<lparr>embeds := (if first then embeds opts else None)\<rparr>"
  from Cons.prems(3) rqs have rq: "text_request w c ?o = Some rq"
    by (auto dest: spec [of _ 0])
  note post = postWebhookMessage_Some [OF rq, of log]
  show ?case
  proof (cases k)
    case 0
    with Cons.prems(5) rqs post show ?thesis by simp
  next
    case (Suc k')
    with Cons.prems(4) rqs obtain r0 where
      r0: "snd (send_request w WebhookFailed log rq) = Inr r0"
      by (auto dest: spec [of _ 0])
    have a: "k' < length cs" using Cons.prems(2) Suc by simp
    have b: "\<forall>j\<le>k'. text_request w (cs ! j)
               (opts\<lparr>embeds := (if False \<and> j = 0 then embeds opts else None)\<rparr>) = Some (rqs' ! j)"
    proof (intro allI impI)
      fix j assume "j \<le> k'"
      then have "Suc j \<le> k" using Suc by simp
      with Cons.prems(3) rqs show "text_request w (cs ! j)
               (opts\<lparr>embeds := (if False \<and> j = 0 then embeds opts else None)\<rparr>) = Some (rqs' ! j)"
        by (auto dest: spec [of _ "Suc j"])
    qed
    have c: "\<forall>j<k'. \<exists>rj. snd (send_request w WebhookFailed ((log @ [rq]) @ take j rqs') (rqs' ! j)) = Inr rj"
    proof (intro allI impI)
      fix j assume "j < k'"
      then have "Suc j < k" using Suc by simp
      with Cons.prems(4) rqs
      show "\<exists>rj. snd (send_request w WebhookFailed ((log @ [rq]) @ take j rqs') (rqs' ! j)) = Inr rj"
        by (auto dest: spec [of _ "Suc j"])
    qed
    have d: "snd (send_request w WebhookFailed ((log @ [rq]) @ take k' rqs') (rqs' ! k')) = Inl e"
      using Cons.prems(5) rqs Suc by simp
    from Cons.IH [OF rqs(2) a b c d, of "Some r0"]
    have "send_chunks w opts (log @ [rq]) False (Some r0) cs = ((log @ [rq]) @ take (Suc k') rqs', Inl e)" .
    with post r0 rqs Suc show ?thesis by simp
  qed
qed



lemma send_followups_filter:
  "send_followups w opts log cs = send_followups w opts log (filter (\<lambda>c. trim c \<noteq> []) cs)"
  by (induction cs arbitrary: log) (simp_all split: prod.splits sum.splits)

lemma send_followups_Inl:
  assumes "\<forall>c \<in> set fs. trim c \<noteq> []" "length rqs = length fs" "k < length fs"
    "\<forall>j\<le>k. text_request w (fs ! j) opts = Some (rqs ! j)"
    "\<forall>j<k. \<exists>rj. snd (send_request w WebhookFailed (log @ take j rqs) (rqs ! j)) = Inr rj"
    "snd (send_request w WebhookFailed (log @ take k rqs) (rqs ! k)) = Inl e"
  shows "send_followups w opts log fs = (log @ take (Suc k) rqs, Inl e)"
  using assms
proof (induction fs arbitrary: rqs k log)
  case Nil
  then show ?case by simp
next
  case (Cons c cs)
  from Cons.prems(2) obtain rq rqs' where rqs: "rqs = rq # rqs'" "length rqs' = length cs"
    by (cases rqs) simp_all
  from Cons.prems(1) have nb: "trim c \<noteq> []" "\<forall>c \<in> set cs. trim c \<noteq> []" by simp_all
  from Cons.prems(4) rqs have rq: "text_request w c opts = Some rq"
    by (auto dest: spec [of _ 0])
  note post = postWebhookMessage_Some [OF rq, of log]
  show ?case
  proof (cases k)
    case 0
    with Cons.prems(6) rqs post nb show ?thesis by simp
  next
    case (Suc k')
    with Cons.prems(5) rqs obtain r0 where
      r0: "snd (send_request w WebhookFailed log rq) = Inr r0"
      by (auto dest: spec [of _ 0])
    have a: "k' < length cs" using Cons.prems(3) Suc by simp
    have b: "\<forall>j\<le>k'. text_request w (cs ! j) opts = Some (rqs' ! j)"
    proof (intro allI impI)
      fix j assume "j \<le> k'"
      then have "Suc j \<le> k" using Suc by simp
      with Cons.prems(4) rqs show "text_request w (cs ! j) opts = Some (rqs' ! j)"
        by (auto dest: spec [of _ "Suc j"])
    qed
    have c: "\<forall>j<k'. \<exists>rj. snd (send_request w WebhookFailed ((log @ [rq]) @ take j rqs') (rqs' ! j)) = Inr rj"
    proof (intro allI impI)
      fix j assume "j < k'"
      then have "Suc j < k" using Suc by simp
      with Cons.prems(5) rqs
      show "\<exists>rj. snd (send_request w WebhookFailed ((log @ [rq]) @ take j rqs') (rqs' ! j)) = Inr rj"
        by (auto dest: spec [of _ "Suc j"])
    qed
    have d: "snd (send_request w WebhookFailed ((log @ [rq]) @ take k' rqs') (rqs' ! k')) = Inl e"
      using Cons.prems(6) rqs Suc by simp
    from Cons.IH [OF nb(2) rqs(2) a b c d]
    have "send_followups w opts (log @ [rq]) cs = ((log @ [rq]) @ take (Suc k') rqs', Inl e)" .
    with post r0 rqs Suc nb show ?thesis by simp
  qed
qed

text \<open>
  C4. When a text send returns a result, it has made exactly one network call per chunk
  of the text, in the order of the chunks: the request at position \<open>k\<close> is the request
  for chunk \<open>k\<close>, it was sent after the \<open>k\<close> requests before it and none other, and each
  call completed with a result before the next was made. The result returned is the
  result of the call for the last chunk.
\<close>

theorem sendDiscordWebhookText_in_order:
  assumes "sendDiscordWebhookText w txt opts = (log, Inr r)"
  shows "text_chunks w txt opts \<noteq> []
     \<and> length log = length (text_chunks w txt opts)
     \<and> (\<forall>k<length log.
          chunk_request w opts (text_chunks w txt opts) k = Some (log ! k)
          \<and> (\<exists>rk. send_request w WebhookFailed (take k log) (log ! k) = (take (Suc k) log, Inr rk)))
     \<and> send_request w WebhookFailed (butlast log) (last log) = (log, Inr r)"
proof -
  let ?cs = "text_chunks w txt opts"
  from assms have nb: "trim txt \<noteq> []"
    by (auto simp: sendDiscordWebhookText_def split: if_splits)
  obtain l out where run: "send_chunks w opts [] True None ?cs = (l, out)"
    by (cases "send_chunks w opts [] True None ?cs")
  with assms nb have "l = log \<and> out = Inr (Some r)"
    by (auto simp: sendDiscordWebhookText_def split: sum.splits option.splits)
  with run have run': "send_chunks w opts [] True None ?cs = (log, Inr (Some r))" by simp
  from send_chunks_Inr [OF run'] obtain rqs where
    r: "log = [] @ rqs" "length rqs = length ?cs" "?cs = [] \<longrightarrow> Some r = None"
      "\<forall>k<length ?cs.
          text_request w (?cs ! k) (opts\<lparr>embeds := (if True \<and> k = 0 then embeds opts else None)\<rparr>)
            = Some (rqs ! k)
          \<and> (\<exists>rk. send_request w WebhookFailed ([] @ take k rqs) (rqs ! k)
                     = ([] @ take (Suc k) rqs, Inr rk)
                   \<and> (Suc k = length ?cs \<longrightarrow> Some r = Some rk))"
    by blast
  from r(1) have rqs: "rqs = log" by simp
  from r(3) have ne: "?cs \<noteq> []" by auto
  from r(2) rqs have len: "length log = length ?cs" by simp
  have each: "\<forall>k<length log.
          chunk_request w opts ?cs k = Some (log ! k)
          \<and> (\<exists>rk. send_request w WebhookFailed (take k log) (log ! k) = (take (Suc k) log, Inr rk))"
    using r(4) rqs len by (auto simp: chunk_request_def)
  have last: "send_request w WebhookFailed (butlast log) (last log) = (log, Inr r)"
  proof -
    from ne len have lne: "log \<noteq> []" by auto
    let ?k = "length ?cs - 1"
    from ne have k: "?k < length ?cs" "Suc ?k = length ?cs" by (simp_all add: Suc_leI)
    from r(4) [rule_format, OF k(1)] rqs k(2) obtain rk where
      "send_request w WebhookFailed (take ?k log) (log ! ?k) = (take (Suc ?k) log, Inr rk)"
      "Some r = Some rk" by auto
    moreover have "take ?k log = butlast log" using len by (simp add: butlast_conv_take)
    moreover have "log ! ?k = last log" using lne len by (simp add: last_conv_nth)
    moreover have "take (Suc ?k) log = log" using k len by simp
    ultimately show ?thesis by simp
  qed
  from ne len each last show ?thesis by blast
qed

theorem sendDiscordWebhookText_in_order_witness:
  "snd (sendDiscordWebhookText demo_world two_lines demo_opts)
     = Inr \<lparr>messageId = js ''m+'', channelId = js ''c1''\<rparr>
   \<and> text_chunks demo_world two_lines demo_opts = [js ''first'', js ''second'']
   \<and> length (fst (sendDiscordWebhookText demo_world two_lines demo_opts)) = 2
   \<and> chunk_request demo_world demo_opts [js ''first'', js ''second''] 1
       = Some (fst (sendDiscordWebhookText demo_world two_lines demo_opts) ! 1)
   \<and> send_request demo_world WebhookFailed
        (butlast (fst (sendDiscordWebhookText demo_world two_lines demo_opts)))
        (last (fst (sendDiscordWebhookText demo_world two_lines demo_opts)))
       = (fst (sendDiscordWebhookText demo_world two_lines demo_opts),
          Inr \<lparr>messageId = js ''m+'', channelId = js ''c1''\<rparr>)"
proof -
  let ?run = "sendDiscordWebhookText demo_world two_lines demo_opts"
  let ?r = "\<lparr>messageId = js ''m+'', channelId = js ''c1''\<rparr>"
  have s: "snd ?run = Inr ?r" by code_simp
  then have run: "?run = (fst ?run, Inr ?r)" by (simp add: prod_eq_iff)
  have c: "text_chunks demo_world two_lines demo_opts = [js ''first'', js ''second'']"
    by code_simp
  note t = sendDiscordWebhookText_in_order [OF run]
  from t c have len: "length (fst ?run) = 2" by simp
  with t c have "chunk_request demo_world demo_opts [js ''first'', js ''second''] 1
       = Some (fst ?run ! 1)" by simp
  with s c len t show ?thesis by simp
qed

text \<open>
  C5, as the claim states it for the media send, fails: when the file post has
  succeeded and the post of a follow-up chunk fails, the send ends with that error, and
  the result of the file post does not reach the caller.
\<close>

theorem media_followup_failure_counterexample:
  "snd (postWebhookMessageWithFile flaky_world [] (js ''first'') demo_media demo_opts)
     = Inr \<lparr>messageId = js ''m'', channelId = js ''c1''\<rparr>
   \<and> snd (sendDiscordWebhookMedia flaky_world two_lines (js ''https://cdn.test/cat.png'') demo_opts)
     = Inl (WebhookFailed 500 (js ''boom''))
   \<and> snd (sendDiscordWebhookMedia flaky_world two_lines (js ''https://cdn.test/cat.png'') demo_opts)
     \<noteq> Inr \<lparr>messageId = js ''m'', channelId = js ''c1''\<rparr>"
  by code_simp

text \<open>
  C5, amended. In a text send, when the calls for the chunks before position \<open>k\<close>
  succeed and the call for chunk \<open>k\<close> fails with an error, the requests sent are those of
  the chunks up to \<open>k\<close> and no other, and the send ends with that very error. In a media
  send whose file post has succeeded, when the posts of the follow-up chunks (the
  non-blank chunks after the first) before position \<open>k'\<close> succeed and the post at \<open>k'\<close>
  fails, the requests sent are the file post and the follow-up posts up to \<open>k'\<close>, with
  no request after the failure (nothing undoes the file post), and the send ends with
  that very error instead of the result of the file post.
\<close>

theorem transport_failure_aborts:
  "(trim txt \<noteq> [] \<and> length rqs = length (text_chunks w txt opts) \<and> k < length rqs
      \<and> (\<forall>j\<le>k. chunk_request w opts (text_chunks w txt opts) j = Some (rqs ! j))
      \<and> (\<forall>j<k. \<exists>rj. snd (send_request w WebhookFailed (take j rqs) (rqs ! j)) = Inr rj)
      \<and> snd (send_request w WebhookFailed (take k rqs) (rqs ! k)) = Inl e
    \<longrightarrow> sendDiscordWebhookText w txt opts = (take (Suc k) rqs, Inl e))
   \<and> (loadWebMedia w m = Inr media
      \<and> postWebhookMessageWithFile w []
            (case media_chunks w txt' opts' of [] \<Rightarrow> [] | c # _ \<Rightarrow> c) media opts' = ([frq], Inr r0)
      \<and> fs = filter (\<lambda>c. trim c \<noteq> []) (drop 1 (media_chunks w txt' opts'))
      \<and> length rqs' = length fs \<and> k' < length fs
      \<and> (\<forall>j\<le>k'. text_request w (fs ! j) opts' = Some (rqs' ! j))
      \<and> (\<forall>j<k'. \<exists>rj. snd (send_request w WebhookFailed (frq # take j rqs') (rqs' ! j)) = Inr rj)
      \<and> snd (send_request w WebhookFailed (frq # take k' rqs') (rqs' ! k')) = Inl e'
    \<longrightarrow> sendDiscordWebhookMedia w txt' m opts' = (frq # take (Suc k') rqs', Inl e'))"
proof (intro conjI impI)
  assume h: "trim txt \<noteq> [] \<and> length rqs = length (text_chunks w txt opts) \<and> k < length rqs
      \<and> (\<forall>j\<le>k. chunk_request w opts (text_chunks w txt opts) j = Some (rqs ! j))
      \<and> (\<forall>j<k. \<exists>rj. snd (send_request w WebhookFailed (take j rqs) (rqs ! j)) = Inr rj)
      \<and> snd (send_request w WebhookFailed (take k rqs) (rqs ! k)) = Inl e"
  let ?cs = "text_chunks w txt opts"
  from h have 1: "length rqs = length ?cs" and 2: "k < length ?cs" by simp_all
  from h have 3: "\<forall>j\<le>k. text_request w (?cs ! j)
               (opts\<lparr>embeds := (if True \<and> j = 0 then embeds opts else None)\<rparr>) = Some (rqs ! j)"
    by (simp add: chunk_request_def)
  from h have 4: "\<forall>j<k. \<exists>rj. snd (send_request w WebhookFailed ([] @ take j rqs) (rqs ! j)) = Inr rj"
    and 5: "snd (send_request w WebhookFailed ([] @ take k rqs) (rqs ! k)) = Inl e" by simp_all
  from send_chunks_Inl [OF 1 2 3 4 5, of None]
  have "send_chunks w opts [] True None ?cs = (take (Suc k) rqs, Inl e)" by simp
  with h show "sendDiscordWebhookText w txt opts = (take (Suc k) rqs, Inl e)"
    by (simp add: sendDiscordWebhookText_def)
next
  assume h: "loadWebMedia w m = Inr media
      \<and> postWebhookMessageWithFile w []
            (case media_chunks w txt' opts' of [] \<Rightarrow> [] | c # _ \<Rightarrow> c) media opts' = ([frq], Inr r0)
      \<and> fs = filter (\<lambda>c. trim c \<noteq> []) (drop 1 (media_chunks w txt' opts'))
      \<and> length rqs' = length fs \<and> k' < length fs
      \<and> (\<forall>j\<le>k'. text_request w (fs ! j) opts' = Some (rqs' ! j))
      \<and> (\<forall>j<k'. \<exists>rj. snd (send_request w WebhookFailed (frq # take j rqs') (rqs' ! j)) = Inr rj)
      \<and> snd (send_request w WebhookFailed (frq # take k' rqs') (rqs' ! k')) = Inl e'"
  from h have fs: "fs = filter (\<lambda>c. trim c \<noteq> []) (drop 1 (media_chunks w txt' opts'))"
    by blast
  from h have load: "loadWebMedia w m = Inr media"
    and filepost: "postWebhookMessageWithFile w []
            (case media_chunks w txt' opts' of [] \<Rightarrow> [] | c # _ \<Rightarrow> c) media opts' = ([frq], Inr r0)"
    by blast+
  have 0: "\<forall>c \<in> set fs. trim c \<noteq> []" unfolding fs by simp
  from h have 1: "length rqs' = length fs" and 2: "k' < length fs"
    and 3: "\<forall>j\<le>k'. text_request w (fs ! j) opts' = Some (rqs' ! j)" by blast+
  from h have "\<forall>j<k'. \<exists>rj. snd (send_request w WebhookFailed (frq # take j rqs') (rqs' ! j)) = Inr rj"
    by blast
  then have 4: "\<forall>j<k'. \<exists>rj. snd (send_request w WebhookFailed ([frq] @ take j rqs') (rqs' ! j)) = Inr rj"
    by simp
  from h have "snd (send_request w WebhookFailed (frq # take k' rqs') (rqs' ! k')) = Inl e'"
    by blast
  then have 5: "snd (send_request w WebhookFailed ([frq] @ take k' rqs') (rqs' ! k')) = Inl e'"
    by simp
  from send_followups_Inl [OF 0 1 2 3 4 5]
  have "send_followups w opts' [frq] fs = ([frq] @ take (Suc k') rqs', Inl e')" .
  then have "send_followups w opts' [frq] (drop 1 (media_chunks w txt' opts'))
               = (frq # take (Suc k') rqs', Inl e')"
    unfolding fs
    using send_followups_filter [of w opts' "[frq]" "drop 1 (media_chunks w txt' opts')"] by simp
  with load filepost show "sendDiscordWebhookMedia w txt' m opts' = (frq # take (Suc k') rqs', Inl e')"
    by (simp add: sendDiscordWebhookMedia_def Let_def)
qed

theorem transport_failure_aborts_witness:
  "sendDiscordWebhookText flaky_world three_lines demo_opts
     = (take 2 demo_text_requests, Inl (WebhookFailed 500 (js ''boom'')))
   \<and> length demo_text_requests = 3
   \<and> sendDiscordWebhookMedia flaky_world three_lines demo_url demo_opts
     = (demo_file_request # take 1 demo_followup_requests, Inl (WebhookFailed 500 (js ''boom'')))
   \<and> length demo_followup_requests = 2"
proof -
  let ?cs = "text_chunks flaky_world three_lines demo_opts"
  let ?e = "WebhookFailed 500 (js ''boom'')"
  have h1: "trim three_lines \<noteq> []" by code_simp
  have h2: "length demo_text_requests = length ?cs" by code_simp
  have h3: "1 < length demo_text_requests" by code_simp
  have "chunk_request flaky_world demo_opts ?cs 0 = Some (demo_text_requests ! 0)" by code_simp
  moreover have "chunk_request flaky_world demo_opts ?cs 1 = Some (demo_text_requests ! 1)" by code_simp
  ultimately have h4: "\<forall>j\<le>1. chunk_request flaky_world demo_opts ?cs j = Some (demo_text_requests ! j)"
    by (simp add: le_Suc_eq)
  have "snd (send_request flaky_world WebhookFailed (take 0 demo_text_requests) (demo_text_requests ! 0))
          = Inr \<lparr>messageId = js ''m'', channelId = js ''c1''\<rparr>" by code_simp
  then have h5: "\<forall>j<1. \<exists>rj. snd (send_request flaky_world WebhookFailed (take j demo_text_requests)
                                   (demo_text_requests ! j)) = Inr rj"
    by simp
  have h6: "snd (send_request flaky_world WebhookFailed (take 1 demo_text_requests) (demo_text_requests ! 1))
              = Inl ?e" by code_simp
  from transport_failure_aborts [THEN conjunct1, rule_format,
      of three_lines demo_text_requests flaky_world demo_opts 1 ?e] h1 h2 h3 h4 h5 h6
  have a: "sendDiscordWebhookText flaky_world three_lines demo_opts = (take 2 demo_text_requests, Inl ?e)"
    by (simp add: numeral_2_eq_2)
  let ?fs = "filter (\<lambda>c. trim c \<noteq> []) (drop 1 (media_chunks flaky_world three_lines demo_opts))"
  have m1: "loadWebMedia flaky_world demo_url = Inr demo_media" by code_simp
  have m2: "postWebhookMessageWithFile flaky_world []
              (case media_chunks flaky_world three_lines demo_opts of [] \<Rightarrow> [] | c # _ \<Rightarrow> c)
              demo_media demo_opts
            = ([demo_file_request], Inr \<lparr>messageId = js ''m'', channelId = js ''c1''\<rparr>)"
    by code_simp
  have m3: "length demo_followup_requests = length ?fs" by code_simp
  have m4: "0 < length ?fs" by code_simp
  have "text_request flaky_world (?fs ! 0) demo_opts = Some (demo_followup_requests ! 0)" by code_simp
  then have m5: "\<forall>j\<le>0. text_request flaky_world (?fs ! j) demo_opts = Some (demo_followup_requests ! j)"
    by simp
  have m6: "\<forall>j<0. \<exists>rj. snd (send_request flaky_world WebhookFailed
              (demo_file_request # take j demo_followup_requests) (demo_followup_requests ! j)) = Inr rj"
    by simp
  have m7: "snd (send_request flaky_world WebhookFailed
              (demo_file_request # take 0 demo_followup_requests) (demo_followup_requests ! 0)) = Inl ?e"
    by code_simp
  from transport_failure_aborts [THEN conjunct2, rule_format,
      of flaky_world demo_url demo_media three_lines demo_opts demo_file_request
         "\<lparr>messageId = js ''m'', channelId = js ''c1''\<rparr>" ?fs demo_followup_requests 0 ?e]
    m1 m2 m3 m4 m5 m6 m7
  have b: "sendDiscordWebhookMedia flaky_world three_lines demo_url demo_opts
     = (demo_file_request # take 1 demo_followup_requests, Inl ?e)"
    by simp
  have l1: "length demo_text_requests = 3" by (simp add: demo_text_requests_def)
  have l2: "length demo_followup_requests = 2" by (simp add: demo_followup_requests_def)
  from a b l1 l2 show ?thesis by simp
qed

lemma map_fst_obj_set:
  "map fst (obj_set p k v) = (if k \<in> set (map fst p) then map fst p else map fst p @ [k])"
proof (induction p)
  case Nil
  show ?case by simp
next
  case (Cons a p)
  obtain k' v' where a: "a = (k', v')" by (cases a)
  show ?case
  proof (cases "k' = k")
    case True
    with a show ?thesis by simp
  next
    case False
    with a Cons show ?thesis by simp
  qed
qed

lemma keys_obj_set: "fst ` set (obj_set p k v) = insert k (fst ` set p)"
proof -
  have "fst ` set (obj_set p k v) = set (map fst (obj_set p k v))" by simp
  also have "\<dots> = insert k (set (map fst p))" by (simp only: map_fst_obj_set) auto
  finally show ?thesis by simp
qed

lemma keys_add_username: "fst ` set (add_username opts p) \<subseteq> insert (js ''username'') (fst ` set p)"
  by (auto simp: add_username_def keys_obj_set split: option.splits)

lemma keys_add_avatar_url: "fst ` set (add_avatar_url opts p) \<subseteq> insert (js ''avatar_url'') (fst ` set p)"
  by (auto simp: add_avatar_url_def keys_obj_set split: option.splits)

lemma keys_add_embeds: "fst ` set (add_embeds opts p) \<subseteq> insert (js ''embeds'') (fst ` set p)"
  by (auto simp: add_embeds_def keys_obj_set split: option.splits)

lemma add_embeds_None: "add_embeds (opts\<lparr>embeds := None\<rparr>) p = p"
  by (simp add: add_embeds_def)

lemma add_username_embeds: "add_username (opts\<lparr>embeds := x\<rparr>) p = add_username opts p"
  by (simp add: add_username_def)

lemma add_avatar_url_embeds: "add_avatar_url (opts\<lparr>embeds := x\<rparr>) p = add_avatar_url opts p"
  by (simp add: add_avatar_url_def)

lemma key_neq:
  "js ''embeds'' \<noteq> js ''content''" "js ''embeds'' \<noteq> js ''username''" "js ''embeds'' \<noteq> js ''avatar_url''"
  "js ''content'' \<noteq> js ''username''" "js ''content'' \<noteq> js ''avatar_url''" "js ''content'' \<noteq> js ''embeds''"
  by (simp_all add: js_def)

lemma text_request_no_embeds:
  assumes "text_request w c (opts\<lparr>embeds := None\<rparr>) = Some rq"
  shows "\<exists>p. rq_body rq = JsonBody p \<and> js ''embeds'' \<notin> fst ` set p"
proof -
  let ?p = "add_avatar_url opts (add_username opts [(js ''content'', JStr c)])"
  from assms have "rq_body rq = JsonBody ?p"
    by (auto simp: text_request_def add_embeds_None add_username_embeds add_avatar_url_embeds
             split: option.splits)
  moreover have "fst ` set ?p \<subseteq> {js ''avatar_url'', js ''username'', js ''content''}"
    using keys_add_avatar_url [of opts "add_username opts [(js ''content'', JStr c)]"]
          keys_add_username [of opts "[(js ''content'', JStr c)]"]
    by auto
  then have "js ''embeds'' \<notin> fst ` set ?p"
    using key_neq by blast
  ultimately show ?thesis by blast
qed

lemma sendDiscordWebhookText_later_chunks_no_embeds:
  assumes "0 < k" "chunk_request w opts cs k = Some rq"
  shows "\<exists>p. rq_body rq = JsonBody p \<and> js ''embeds'' \<notin> fst ` set p"
  using assms text_request_no_embeds [of w "cs ! k" opts rq]
  by (simp add: chunk_request_def)

text \<open>
  C1. The claim: in every text send and every media send, embeds go with the first
  transmitted unit only, and no later chunk carries embeds. The text send does so
  (\<open>sendDiscordWebhookText_later_chunks_no_embeds\<close>). The media send posts its follow-up
  chunks with the options as they came, embeds included: with a caption of two lines and
  one embed, the second request, the post of the second line, carries the embed again.
\<close>

theorem media_followup_carries_embeds:
  "media_chunks demo_world two_lines demo_opts = [js ''first'', js ''second'']
   \<and> snd (sendDiscordWebhookMedia demo_world two_lines demo_url demo_opts)
       = Inr \<lparr>messageId = js ''m'', channelId = js ''c1''\<rparr>
   \<and> length (fst (sendDiscordWebhookMedia demo_world two_lines demo_url demo_opts)) = 2
   \<and> rq_body (fst (sendDiscordWebhookMedia demo_world two_lines demo_url demo_opts) ! 1)
       = JsonBody [(js ''content'', JStr (js ''second'')),
                   (js ''username'', JStr (fire @ js '' Ember'')),
                   (js ''embeds'', JArr [demo_embed])]"
  by code_simp

lemma read_response_not_EmptyMessage:
  "mk = WebhookFailed \<or> mk = WebhookFileUploadFailed \<Longrightarrow> read_response mk r \<noteq> Inl EmptyMessage"
  by (auto simp: read_response_def split: sum.splits)

lemma send_request_not_EmptyMessage:
  "mk = WebhookFailed \<or> mk = WebhookFileUploadFailed \<Longrightarrow>
     snd (send_request w mk log rq) \<noteq> Inl EmptyMessage"
  using read_response_not_EmptyMessage [of mk]
  by (auto simp: send_request_def split: fetch_result.splits)

lemma postWebhookMessage_not_EmptyMessage:
  "snd (postWebhookMessage w log c opts) \<noteq> Inl EmptyMessage"
  using send_request_not_EmptyMessage [of WebhookFailed w log]
  by (auto simp: postWebhookMessage_def split: option.splits)

lemma postWebhookMessageWithFile_not_EmptyMessage:
  "snd (postWebhookMessageWithFile w log c media opts) \<noteq> Inl EmptyMessage"
  using send_request_not_EmptyMessage [of WebhookFileUploadFailed w log]
  by (auto simp: postWebhookMessageWithFile_def split: option.splits)

lemma send_followups_not_EmptyMessage:
  "snd (send_followups w opts log cs) \<noteq> Inl EmptyMessage"
proof (induction cs arbitrary: log)
  case Nil
  show ?case by simp
next
  case (Cons c cs)
  show ?case
  proof (cases "trim c = []")
    case True
    with Cons show ?thesis by simp
  next
    case False
    obtain log1 out where p: "postWebhookMessage w log c opts = (log1, out)"
      by (cases "postWebhookMessage w log c opts")
    show ?thesis
    proof (cases out)
      case (Inl e)
      with p postWebhookMessage_not_EmptyMessage [of w log c opts] False show ?thesis by simp
    next
      case (Inr r)
      with p False Cons show ?thesis by simp
    qed
  qed
qed

lemma sendDiscordWebhookMedia_not_EmptyMessage:
  "snd (sendDiscordWebhookMedia w txt m opts) \<noteq> Inl EmptyMessage"
proof (cases "loadWebMedia w m")
  case (Inl e)
  then show ?thesis by (simp add: sendDiscordWebhookMedia_def)
next
  case (Inr media)
  let ?chunks = "media_chunks w txt opts"
  let ?caption = "case ?chunks of [] \<Rightarrow> [] | c # _ \<Rightarrow> c"
  obtain log1 out where p: "postWebhookMessageWithFile w [] ?caption media opts = (log1, out)"
    by (cases "postWebhookMessageWithFile w [] ?caption media opts")
  show ?thesis
  proof (cases out)
    case (Inl e)
    with p postWebhookMessageWithFile_not_EmptyMessage [of w "[]" ?caption media opts] Inr
    show ?thesis by (simp add: sendDiscordWebhookMedia_def Let_def)
  next
    case r: (Inr r)
    obtain log2 out2 where f: "send_followups w opts log1 (drop 1 ?chunks) = (log2, out2)"
      by (cases "send_followups w opts log1 (drop 1 ?chunks)")
    with send_followups_not_EmptyMessage [of w opts log1 "drop 1 ?chunks"]
    have "out2 \<noteq> Inl EmptyMessage" by simp
    with p r f Inr show ?thesis
      by (cases out2) (simp_all add: sendDiscordWebhookMedia_def Let_def)
  qed
qed

lemma target_url_Some:
  assumes "URL_parse w (webhookUrl opts) \<noteq> None"
  shows "\<exists>u. target_url w opts = Some u"
proof -
  from assms obtain u0 where "URL_parse w (webhookUrl opts) = Some u0" by blast
  then show ?thesis
    by (cases "threadId opts") (simp_all add: target_url_def Let_def)
qed

text \<open>
  C9, as the claim states it for every options value, fails: with a webhook URL that
  does not parse, the media send with an empty caption sends no request at all; and so
  it does when the media does not load.
\<close>

theorem media_empty_caption_counterexample:
  "sendDiscordWebhookMedia demo_world [] demo_url (demo_opts\<lparr>webhookUrl := js ''not a url''\<rparr>)
     = ([], Inl InvalidURL)
   \<and> sendDiscordWebhookMedia (demo_world\<lparr>loadWebMedia := (\<lambda>u. Inl (js ''404''))\<rparr>) [] demo_url demo_opts
     = ([], Inl (Rejected (js ''404'')))"
  by code_simp

text \<open>
  C9, amended. The media send never rejects a caption for being empty or blank: whatever
  the caption and the options, it does not end with the validation error of the text
  send (which a blank text does get from the text send). With an empty caption, once the
  media has loaded and the webhook URL of the options parses, it sends exactly one
  request: the multipart file post, whose \<open>payload_json\<close> part has no \<open>content\<close> key; no
  text post follows. When the media has loaded and the URL does not parse, it sends
  nothing and ends with the error of \<open>new URL\<close>.
\<close>

theorem sendDiscordWebhookMedia_empty_caption:
  "snd (sendDiscordWebhookMedia w txt m opts) \<noteq> Inl EmptyMessage
   \<and> (trim txt = [] \<longrightarrow> sendDiscordWebhookText w txt opts = ([], Inl EmptyMessage))
   \<and> (loadWebMedia w m = Inr media \<and> URL_parse w (webhookUrl opts) \<noteq> None \<longrightarrow>
        (\<exists>rq p. fst (sendDiscordWebhookMedia w [] m opts) = [rq]
           \<and> file_request w [] media opts = Some rq
           \<and> rq_body rq = FormData
                [(js ''payload_json'', JsonText p),
                 (js ''files[0]'',
                  Blob (buffer media)
                    (blob_type (case mimeType media of
                                  None \<Rightarrow> js ''application/octet-stream''
                                | Some t \<Rightarrow> t))
                    (case fileName media of None \<Rightarrow> js ''upload'' | Some f \<Rightarrow> f))]
           \<and> js ''content'' \<notin> fst ` set p))
   \<and> (loadWebMedia w m = Inr media \<and> URL_parse w (webhookUrl opts) = None \<longrightarrow>
        sendDiscordWebhookMedia w [] m opts = ([], Inl InvalidURL))"
proof (intro conjI impI)
  show "snd (sendDiscordWebhookMedia w txt m opts) \<noteq> Inl EmptyMessage"
    by (rule sendDiscordWebhookMedia_not_EmptyMessage)
next
  assume "trim txt = []"
  then show "sendDiscordWebhookText w txt opts = ([], Inl EmptyMessage)"
    by (simp add: sendDiscordWebhookText_def)
next
  assume h: "loadWebMedia w m = Inr media \<and> URL_parse w (webhookUrl opts) \<noteq> None"
  then obtain u where u: "target_url w opts = Some u"
    using target_url_Some [of w opts] by blast
  let ?p = "add_embeds opts (add_avatar_url opts (add_username opts []))"
  let ?blob = "Blob (buffer media)
                    (blob_type (case mimeType media of
                                  None \<Rightarrow> js ''application/octet-stream''
                                | Some t \<Rightarrow> t))
                    (case fileName media of None \<Rightarrow> js ''upload'' | Some f \<Rightarrow> f)"
  let ?rq = "\<lparr>rq_url = u, rq_method = js ''POST'', rq_headers = [],
              rq_body = FormData [(js ''payload_json'', JsonText ?p), (js ''files[0]'', ?blob)]\<rparr>"
  have fr: "file_request w [] media opts = Some ?rq"
    using u by (simp add: file_request_def)
  have chunks: "media_chunks w [] opts = []"
    by (simp add: media_chunks_def)
  have "postWebhookMessageWithFile w [] [] media opts
          = ([?rq], snd (send_request w WebhookFileUploadFailed [] ?rq))"
    using fr send_request_eq [of w WebhookFileUploadFailed "[]" ?rq]
    by (simp add: postWebhookMessageWithFile_def)
  then have log: "fst (sendDiscordWebhookMedia w [] m opts) = [?rq]"
    using h chunks
    by (cases "snd (send_request w WebhookFileUploadFailed [] ?rq)")
       (simp_all add: sendDiscordWebhookMedia_def)
  have "fst ` set ?p \<subseteq> {js ''embeds'', js ''avatar_url'', js ''username''}"
    using keys_add_embeds [of opts "add_avatar_url opts (add_username opts [])"]
          keys_add_avatar_url [of opts "add_username opts []"]
          keys_add_username [of opts "[]"]
    by auto
  then have nc: "js ''content'' \<notin> fst ` set ?p"
    using key_neq by blast
  from log fr nc
  show "\<exists>rq p. fst (sendDiscordWebhookMedia w [] m opts) = [rq]
           \<and> file_request w [] media opts = Some rq
           \<and> rq_body rq = FormData [(js ''payload_json'', JsonText p), (js ''files[0]'', ?blob)]
           \<and> js ''content'' \<notin> fst ` set p"
    by (intro exI [of _ ?rq] exI [of _ ?p]) simp
next
  assume h: "loadWebMedia w m = Inr media \<and> URL_parse w (webhookUrl opts) = None"
  then have "target_url w opts = None" by (simp add: target_url_def)
  then have "postWebhookMessageWithFile w [] [] media opts = ([], Inl InvalidURL)"
    by (simp add: postWebhookMessageWithFile_def file_request_def)
  with h show "sendDiscordWebhookMedia w [] m opts = ([], Inl InvalidURL)"
    by (simp add: sendDiscordWebhookMedia_def media_chunks_def)
qed

theorem sendDiscordWebhookMedia_empty_caption_witness:
  "loadWebMedia demo_world demo_url = Inr demo_media
   \<and> URL_parse demo_world (webhookUrl demo_opts) \<noteq> None
   \<and> length (fst (sendDiscordWebhookMedia demo_world [] demo_url demo_opts)) = 1
   \<and> snd (sendDiscordWebhookMedia demo_world [] demo_url demo_opts)
       = Inr \<lparr>messageId = js ''m'', channelId = js ''c1''\<rparr>
   \<and> trim (js ''  '') = []
   \<and> sendDiscordWebhookText demo_world (js ''  '') demo_opts = ([], Inl EmptyMessage)
   \<and> loadWebMedia png_world demo_url = Inr png_media
   \<and> rq_body (hd (fst (sendDiscordWebhookMedia png_world [] demo_url demo_opts)))
       = FormData
           [(js ''payload_json'',
             JsonText [(js ''username'', JStr (fire @ js '' Ember'')), (js ''embeds'', JArr [demo_embed])]),
            (js ''files[0]'', Blob [1, 2, 3] (js ''image/png'') (js ''upload''))]
   \<and> URL_parse demo_world (webhookUrl (demo_opts\<lparr>webhookUrl := js ''not a url''\<rparr>)) = None
   \<and> sendDiscordWebhookMedia demo_world [] demo_url (demo_opts\<lparr>webhookUrl := js ''not a url''\<rparr>)
       = ([], Inl InvalidURL)"
proof -
  let ?bad = "demo_opts\<lparr>webhookUrl := js ''not a url''\<rparr>"
  have a: "loadWebMedia demo_world demo_url = Inr demo_media" by code_simp
  have b: "URL_parse demo_world (webhookUrl demo_opts) \<noteq> None" by code_simp
  have c: "trim (js ''  '') = []" by code_simp
  have d: "snd (sendDiscordWebhookMedia demo_world [] demo_url demo_opts)
       = Inr \<lparr>messageId = js ''m'', channelId = js ''c1''\<rparr>" by code_simp
  note t = sendDiscordWebhookMedia_empty_caption
             [of demo_world "js ''  ''" demo_url demo_opts demo_media]
  from t a b obtain rq where "fst (sendDiscordWebhookMedia demo_world [] demo_url demo_opts) = [rq]"
    by blast
  then have e: "length (fst (sendDiscordWebhookMedia demo_world [] demo_url demo_opts)) = 1"
    by simp
  from t c have f: "sendDiscordWebhookText demo_world (js ''  '') demo_opts = ([], Inl EmptyMessage)"
    by blast
  have a': "loadWebMedia png_world demo_url = Inr png_media" by code_simp
  have b': "URL_parse png_world (webhookUrl demo_opts) \<noteq> None" by code_simp
  note t' = sendDiscordWebhookMedia_empty_caption
             [of png_world "[]" demo_url demo_opts png_media]
  from t' a' b' obtain rq' p' where
    g: "fst (sendDiscordWebhookMedia png_world [] demo_url demo_opts) = [rq']"
       "file_request png_world [] png_media demo_opts = Some rq'" by blast
  have "map_option rq_body (file_request png_world [] png_media demo_opts)
          = Some (FormData
           [(js ''payload_json'',
             JsonText [(js ''username'', JStr (fire @ js '' Ember'')), (js ''embeds'', JArr [demo_embed])]),
            (js ''files[0]'', Blob [1, 2, 3] (js ''image/png'') (js ''upload''))])"
    by code_simp
  with g have i: "rq_body (hd (fst (sendDiscordWebhookMedia png_world [] demo_url demo_opts)))
       = FormData
           [(js ''payload_json'',
             JsonText [(js ''username'', JStr (fire @ js '' Ember'')), (js ''embeds'', JArr [demo_embed])]),
            (js ''files[0]'', Blob [1, 2, 3] (js ''image/png'') (js ''upload''))]"
    by simp
  have j: "URL_parse demo_world (webhookUrl ?bad) = None" by code_simp
  note t'' = sendDiscordWebhookMedia_empty_caption [of demo_world "[]" demo_url ?bad demo_media]
  from t'' a j have k: "sendDiscordWebhookMedia demo_world [] demo_url ?bad = ([], Inl InvalidURL)"
    by blast
  from a b c d e f a' i j k show ?thesis by blast
qed

text \<open>
  A text send does return a result whenever its text is not blank, the webhook URL
  parses and every call of the webhook completes with a result: the case in which C4
  speaks of the result returned.
\<close>

lemma target_url_embeds: "target_url w (opts\<lparr>embeds := x\<rparr>) = target_url w opts"
  by (simp add: target_url_def Let_def cong: option.case_cong)

lemma text_request_Some:
  assumes "URL_parse w (webhookUrl opts) \<noteq> None"
  shows "\<exists>rq. text_request w c opts = Some rq"
proof -
  from target_url_Some [OF assms] obtain u where "target_url w opts = Some u" ..
  then show ?thesis by (simp add: text_request_def)
qed

lemma send_chunks_succeeds:
  assumes url: "URL_parse w (webhookUrl opts) \<noteq> None"
    and healthy: "\<And>log rq. \<exists>r. snd (send_request w WebhookFailed log rq) = Inr r"
  shows "\<exists>log' res. send_chunks w opts log first lastR cs = (log', Inr res)
           \<and> (cs = [] \<longrightarrow> res = lastR) \<and> (cs \<noteq> [] \<longrightarrow> res \<noteq> None)"
proof (induction cs arbitrary: log first lastR)
  case Nil
  show ?case by simp
next
  case (Cons c cs)
  let ?o = "opts\<lparr>embeds := (if first then embeds opts else None)\<rparr>"
  have "URL_parse w (webhookUrl ?o) \<noteq> None" using url by simp
  from text_request_Some [OF this] obtain rq where rq: "text_request w c ?o = Some rq" ..
  from healthy obtain r where r: "snd (send_request w WebhookFailed log rq) = Inr r" by blast
  from postWebhookMessage_Some [OF rq, of log] r
  have post: "postWebhookMessage w log c ?o = (log @ [rq], Inr r)" by simp
  from Cons [of "log @ [rq]" False "Some r"] obtain log' res where
    "send_chunks w opts (log @ [rq]) False (Some r) cs = (log', Inr res)"
    "cs = [] \<longrightarrow> res = Some r" "cs \<noteq> [] \<longrightarrow> res \<noteq> None" by blast
  with post show ?case by auto
qed

lemma sendDiscordWebhookText_succeeds:
  assumes "trim txt \<noteq> []" "URL_parse w (webhookUrl opts) \<noteq> None"
    and "\<And>log rq. \<exists>r. snd (send_request w WebhookFailed log rq) = Inr r"
  shows "\<exists>log r. sendDiscordWebhookText w txt opts = (log, Inr r)"
proof -
  from assms(1) have "txt \<noteq> []" by (auto simp: trim_def)
  then have ne: "text_chunks w txt opts \<noteq> []" by (simp add: text_chunks_def Let_def)
  from send_chunks_succeeds [OF assms(2,3), of "[]" True None "text_chunks w txt opts"] ne
  obtain log' r where "send_chunks w opts [] True None (text_chunks w txt opts) = (log', Inr (Some r))"
    by auto
  with assms(1) show ?thesis by (simp add: sendDiscordWebhookText_def)
qed

section \<open>Properties of the delivery orchestrator\<close>

lemma truthy_Some: "truthy v \<longleftrightarrow> (\<exists>s. v = Some s \<and> s \<noteq> [])"
  by (cases v) (simp_all add: truthy_def)

lemma identity_resolves_iff:
  "identity_resolves w (Some a) \<longleftrightarrow> (\<exists>i. resolveWebhookIdentity w a None = Inr (Some i))"
  by (auto simp: identity_resolves_def split: sum.splits option.splits)

lemma webhook_conditionsD:
  assumes "webhook_conditions w ctx"
  obtains u a i where "webhook_for ctx = Some u" "u \<noteq> []" "agentId ctx = Some a" "a \<noteq> []"
    "resolveWebhookIdentity w a None = Inr (Some i)"
proof -
  from assms obtain u a where ua: "webhook_for ctx = Some u" "u \<noteq> []" "agentId ctx = Some a" "a \<noteq> []"
    by (auto simp: webhook_conditions_def truthy_Some)
  with assms have "identity_resolves w (Some a)" by (simp add: webhook_conditions_def)
  then obtain i where "resolveWebhookIdentity w a None = Inr (Some i)"
    by (auto simp: identity_resolves_iff)
  with ua that show thesis by blast
qed

lemma sendText_webhook_branch:
  assumes "webhook_for ctx = Some u" "u \<noteq> []" "agentId ctx = Some a" "a \<noteq> []"
    "resolveWebhookIdentity w a None = Inr (Some i)"
  shows "sendTextWithWebhookFallback w ctx =
     \<lparr>transports = [WebhookText (ctx_text ctx) (webhook_opts u i)],
      requests = fst (sendDiscordWebhookText w (ctx_text ctx) (webhook_opts u i)),
      outcome = receipt (snd (sendDiscordWebhookText w (ctx_text ctx) (webhook_opts u i)))\<rparr>"
  using assms by (simp add: sendTextWithWebhookFallback_def split: prod.splits)

lemma sendMedia_webhook_branch:
  assumes "webhook_for ctx = Some u" "u \<noteq> []" "agentId ctx = Some a" "a \<noteq> []"
    "resolveWebhookIdentity w a None = Inr (Some i)" "mediaUrl ctx = Some m" "m \<noteq> []"
  shows "sendMediaWithWebhookFallback w ctx =
     \<lparr>transports = [WebhookMedia (ctx_text ctx) m (webhook_opts u i)],
      requests = fst (sendDiscordWebhookMedia w (ctx_text ctx) m (webhook_opts u i)),
      outcome = receipt (snd (sendDiscordWebhookMedia w (ctx_text ctx) m (webhook_opts u i)))\<rparr>"
  using assms by (simp add: sendMediaWithWebhookFallback_def split: prod.splits)

lemma sendText_fallback_branch:
  assumes "\<not> webhook_conditions w ctx"
  shows "sendTextWithWebhookFallback w ctx = bot_fallback w ctx None"
proof (cases "truthy (webhook_for ctx) \<and> truthy (agentId ctx)")
  case True
  then obtain u a where ua: "webhook_for ctx = Some u" "u \<noteq> []" "agentId ctx = Some a" "a \<noteq> []"
    by (auto simp: truthy_Some)
  with assms True have "\<not> identity_resolves w (Some a)" by (simp add: webhook_conditions_def)
  moreover obtain r where "resolveWebhookIdentity w a None = Inr r"
    using resolveWebhookIdentity_total by blast
  ultimately have "resolveWebhookIdentity w a None = Inr None"
    by (cases r) (simp_all add: identity_resolves_iff)
  with ua show ?thesis by (simp add: sendTextWithWebhookFallback_def)
next
  case False
  then show ?thesis
    by (auto simp: sendTextWithWebhookFallback_def truthy_Some split: option.splits)
qed

lemma sendMedia_fallback_branch:
  assumes "\<not> (webhook_conditions w ctx \<and> truthy (mediaUrl ctx))"
  shows "sendMediaWithWebhookFallback w ctx = bot_fallback w ctx (mediaUrl ctx)"
proof (cases "truthy (webhook_for ctx) \<and> truthy (agentId ctx) \<and> truthy (mediaUrl ctx)")
  case True
  then obtain u a m where ua: "webhook_for ctx = Some u" "u \<noteq> []" "agentId ctx = Some a" "a \<noteq> []"
      "mediaUrl ctx = Some m" "m \<noteq> []"
    by (auto simp: truthy_Some)
  with assms True have "\<not> identity_resolves w (Some a)" by (simp add: webhook_conditions_def)
  moreover obtain r where "resolveWebhookIdentity w a None = Inr r"
    using resolveWebhookIdentity_total by blast
  ultimately have "resolveWebhookIdentity w a None = Inr None"
    by (cases r) (simp_all add: identity_resolves_iff)
  with ua show ?thesis by (simp add: sendMediaWithWebhookFallback_def)
next
  case False
  then show ?thesis
    by (auto simp: sendMediaWithWebhookFallback_def truthy_Some split: option.splits)
qed

text \<open>
  C3. For every text context the orchestrator invokes the webhook transport, and it
  alone, exactly when a webhook endpoint resolves for the destination, an acting-agent
  identifier is present and that identifier resolves to a display identity; for every
  media context, exactly when moreover a media reference is present. The delivery is
  then the one call of the webhook transport with the text (and the media reference)
  and the options made of that endpoint and that identity, the requests that call sends
  and its result as the receipt. When any one of the conditions fails, the delivery is
  the one call of the bot-API client (the injected one, else the default) with the
  address, the text, the media reference of a media send, the reply target and the
  account selector of the context; its result is the receipt, and the webhook transport
  sends nothing.
\<close>

theorem webhook_only_if_conditions:
  "(webhook_conditions w ctx \<longrightarrow>
      (\<exists>u a i. webhook_for ctx = Some u \<and> agentId ctx = Some a
         \<and> resolveWebhookIdentity w a None = Inr (Some i)
         \<and> (let opts = \<lparr>webhookUrl = u, identity = Some i, replyTo = None, threadId = None,
                          maxLinesPerMessage = None, chunkMode = None, embeds = None\<rparr>;
                  sent = sendDiscordWebhookText w (ctx_text ctx) opts
              in sendTextWithWebhookFallback w ctx =
                   \<lparr>transports = [WebhookText (ctx_text ctx) opts],
                    requests = fst sent,
                    outcome = (case snd sent of
                                 Inl e \<Rightarrow> Inl e
                               | Inr r \<Rightarrow> Inr \<lparr>messageId = messageId r, channelId = channelId r,
                                                channel = js ''discord''\<rparr>)\<rparr>)))
   \<and> (\<not> webhook_conditions w ctx \<longrightarrow>
        (let send = (case deps ctx of
                       None \<Rightarrow> sendMessageDiscord w
                     | Some d \<Rightarrow> (case sendDiscord d of None \<Rightarrow> sendMessageDiscord w | Some f \<Rightarrow> f));
             bopts = \<lparr>verbose = False, bot_mediaUrl = None, bot_replyTo = replyToId ctx,
                      bot_accountId = accountId ctx\<rparr>
         in sendTextWithWebhookFallback w ctx =
              \<lparr>transports = [BotApi (to ctx) (ctx_text ctx) bopts],
               requests = [],
               outcome = (case send (to ctx) (ctx_text ctx) bopts of
                            Inl e \<Rightarrow> Inl (Rejected e)
                          | Inr r \<Rightarrow> Inr \<lparr>messageId = messageId r, channelId = channelId r,
                                           channel = js ''discord''\<rparr>)\<rparr>))
   \<and> (webhook_conditions w ctx \<and> truthy (mediaUrl ctx) \<longrightarrow>
      (\<exists>u a i m. webhook_for ctx = Some u \<and> agentId ctx = Some a \<and> mediaUrl ctx = Some m
         \<and> resolveWebhookIdentity w a None = Inr (Some i)
         \<and> (let opts = \<lparr>webhookUrl = u, identity = Some i, replyTo = None, threadId = None,
                          maxLinesPerMessage = None, chunkMode = None, embeds = None\<rparr>;
                  sent = sendDiscordWebhookMedia w (ctx_text ctx) m opts
              in sendMediaWithWebhookFallback w ctx =
                   \<lparr>transports = [WebhookMedia (ctx_text ctx) m opts],
                    requests = fst sent,
                    outcome = (case snd sent of
                                 Inl e \<Rightarrow> Inl e
                               | Inr r \<Rightarrow> Inr \<lparr>messageId = messageId r, channelId = channelId r,
                                                channel = js ''discord''\<rparr>)\<rparr>)))
   \<and> (\<not> (webhook_conditions w ctx \<and> truthy (mediaUrl ctx)) \<longrightarrow>
        (let send = (case deps ctx of
                       None \<Rightarrow> sendMessageDiscord w
                     | Some d \<Rightarrow> (case sendDiscord d of None \<Rightarrow> sendMessageDiscord w | Some f \<Rightarrow> f));
             bopts = \<lparr>verbose = False, bot_mediaUrl = mediaUrl ctx, bot_replyTo = replyToId ctx,
                      bot_accountId = accountId ctx\<rparr>
         in sendMediaWithWebhookFallback w ctx =
              \<lparr>transports = [BotApi (to ctx) (ctx_text ctx) bopts],
               requests = [],
               outcome = (case send (to ctx) (ctx_text ctx) bopts of
                            Inl e \<Rightarrow> Inl (Rejected e)
                          | Inr r \<Rightarrow> Inr \<lparr>messageId = messageId r, channelId = channelId r,
                                           channel = js ''discord''\<rparr>)\<rparr>))"
proof -
  have fb: "\<And>m. bot_fallback w ctx m =
      (let send = (case deps ctx of
                       None \<Rightarrow> sendMessageDiscord w
                     | Some d \<Rightarrow> (case sendDiscord d of None \<Rightarrow> sendMessageDiscord w | Some f \<Rightarrow> f));
             bopts = \<lparr>verbose = False, bot_mediaUrl = m, bot_replyTo = replyToId ctx,
                      bot_accountId = accountId ctx\<rparr>
         in \<lparr>transports = [BotApi (to ctx) (ctx_text ctx) bopts],
               requests = [],
               outcome = (case send (to ctx) (ctx_text ctx) bopts of
                            Inl e \<Rightarrow> Inl (Rejected e)
                          | Inr r \<Rightarrow> Inr \<lparr>messageId = messageId r, channelId = channelId r,
                                           channel = js ''discord''\<rparr>)\<rparr>)"
    by (simp add: bot_fallback_def bot_sender_def receipt_def Let_def split: sum.splits)
  have 1: "webhook_conditions w ctx \<longrightarrow>
      (\<exists>u a i. webhook_for ctx = Some u \<and> agentId ctx = Some a
         \<and> resolveWebhookIdentity w a None = Inr (Some i)
         \<and> (let opts = \<lparr>webhookUrl = u, identity = Some i, replyTo = None, threadId = None,
                          maxLinesPerMessage = None, chunkMode = None, embeds = None\<rparr>;
                  sent = sendDiscordWebhookText w (ctx_text ctx) opts
              in sendTextWithWebhookFallback w ctx =
                   \<lparr>transports = [WebhookText (ctx_text ctx) opts],
                    requests = fst sent,
                    outcome = (case snd sent of
                                 Inl e \<Rightarrow> Inl e
                               | Inr r \<Rightarrow> Inr \<lparr>messageId = messageId r, channelId = channelId r,
                                                channel = js ''discord''\<rparr>)\<rparr>))"
  proof
    assume "webhook_conditions w ctx"
    then obtain u a i where h: "webhook_for ctx = Some u" "u \<noteq> []" "agentId ctx = Some a" "a \<noteq> []"
      "resolveWebhookIdentity w a None = Inr (Some i)" by (rule webhook_conditionsD)
    from sendText_webhook_branch [OF h] h(1,3,5)
    show "\<exists>u a i. webhook_for ctx = Some u \<and> agentId ctx = Some a
         \<and> resolveWebhookIdentity w a None = Inr (Some i)
         \<and> (let opts = \<lparr>webhookUrl = u, identity = Some i, replyTo = None, threadId = None,
                          maxLinesPerMessage = None, chunkMode = None, embeds = None\<rparr>;
                  sent = sendDiscordWebhookText w (ctx_text ctx) opts
              in sendTextWithWebhookFallback w ctx =
                   \<lparr>transports = [WebhookText (ctx_text ctx) opts],
                    requests = fst sent,
                    outcome = (case snd sent of
                                 Inl e \<Rightarrow> Inl e
                               | Inr r \<Rightarrow> Inr \<lparr>messageId = messageId r, channelId = channelId r,
                                                channel = js ''discord''\<rparr>)\<rparr>)"
      by (intro exI [of _ u] exI [of _ a] exI [of _ i])
         (simp add: webhook_opts_def receipt_def Let_def)
  qed
  have 2: "webhook_conditions w ctx \<and> truthy (mediaUrl ctx) \<longrightarrow>
      (\<exists>u a i m. webhook_for ctx = Some u \<and> agentId ctx = Some a \<and> mediaUrl ctx = Some m
         \<and> resolveWebhookIdentity w a None = Inr (Some i)
         \<and> (let opts = \<lparr>webhookUrl = u, identity = Some i, replyTo = None, threadId = None,
                          maxLinesPerMessage = None, chunkMode = None, embeds = None\<rparr>;
                  sent = sendDiscordWebhookMedia w (ctx_text ctx) m opts
              in sendMediaWithWebhookFallback w ctx =
                   \<lparr>transports = [WebhookMedia (ctx_text ctx) m opts],
                    requests = fst sent,
                    outcome = (case snd sent of
                                 Inl e \<Rightarrow> Inl e
                               | Inr r \<Rightarrow> Inr \<lparr>messageId = messageId r, channelId = channelId r,
                                                channel = js ''discord''\<rparr>)\<rparr>))"
  proof
    assume a: "webhook_conditions w ctx \<and> truthy (mediaUrl ctx)"
    then obtain m where m: "mediaUrl ctx = Some m" "m \<noteq> []" by (auto simp: truthy_Some)
    from a obtain u a i where h: "webhook_for ctx = Some u" "u \<noteq> []" "agentId ctx = Some a" "a \<noteq> []"
      "resolveWebhookIdentity w a None = Inr (Some i)" by (blast elim: webhook_conditionsD)
    from sendMedia_webhook_branch [OF h m] h(1,3,5) m(1)
    show "\<exists>u a i m. webhook_for ctx = Some u \<and> agentId ctx = Some a \<and> mediaUrl ctx = Some m
         \<and> resolveWebhookIdentity w a None = Inr (Some i)
         \<and> (let opts = \<lparr>webhookUrl = u, identity = Some i, replyTo = None, threadId = None,
                          maxLinesPerMessage = None, chunkMode = None, embeds = None\<rparr>;
                  sent = sendDiscordWebhookMedia w (ctx_text ctx) m opts
              in sendMediaWithWebhookFallback w ctx =
                   \<lparr>transports = [WebhookMedia (ctx_text ctx) m opts],
                    requests = fst sent,
                    outcome = (case snd sent of
                                 Inl e \<Rightarrow> Inl e
                               | Inr r \<Rightarrow> Inr \<lparr>messageId = messageId r, channelId = channelId r,
                                                channel = js ''discord''\<rparr>)\<rparr>)"
      by (intro exI [of _ u] exI [of _ a] exI [of _ i] exI [of _ m])
         (simp add: webhook_opts_def receipt_def Let_def)
  qed
  from 1 2 sendText_fallback_branch [of w ctx] sendMedia_fallback_branch [of w ctx]
    fb [of None] fb [of "mediaUrl ctx"]
  show ?thesis by presburger
qed


theorem webhook_only_if_conditions_witness:
  "webhook_conditions demo_world demo_ctx
   \<and> transports (sendTextWithWebhookFallback demo_world demo_ctx)
       = [WebhookText two_lines
            \<lparr>webhookUrl = js ''https://discord.test/api/webhooks/1/token'',
             identity = Some \<lparr>username = Some (fire @ js '' Ember''), avatarUrl = None\<rparr>,
             replyTo = None, threadId = None, maxLinesPerMessage = None, chunkMode = None,
             embeds = None\<rparr>]
   \<and> length (requests (sendTextWithWebhookFallback demo_world demo_ctx)) = 2
   \<and> outcome (sendTextWithWebhookFallback demo_world demo_ctx)
       = Inr \<lparr>messageId = js ''m+'', channelId = js ''c1'', channel = js ''discord''\<rparr>
   \<and> truthy (mediaUrl demo_ctx)
   \<and> transports (sendMediaWithWebhookFallback demo_world demo_ctx)
       = [WebhookMedia two_lines demo_url
            \<lparr>webhookUrl = js ''https://discord.test/api/webhooks/1/token'',
             identity = Some \<lparr>username = Some (fire @ js '' Ember''), avatarUrl = None\<rparr>,
             replyTo = None, threadId = None, maxLinesPerMessage = None, chunkMode = None,
             embeds = None\<rparr>]
   \<and> length (requests (sendMediaWithWebhookFallback demo_world demo_ctx)) = 2
   \<and> outcome (sendMediaWithWebhookFallback demo_world demo_ctx)
       = Inr \<lparr>messageId = js ''m'', channelId = js ''c1'', channel = js ''discord''\<rparr>
   \<and> truthy (webhook_for (demo_ctx\<lparr>agentId := None\<rparr>))
   \<and> \<not> webhook_conditions demo_world (demo_ctx\<lparr>agentId := None\<rparr>)
   \<and> sendTextWithWebhookFallback demo_world (demo_ctx\<lparr>agentId := None\<rparr>)
       = \<lparr>transports =
            [BotApi (js ''channel:123456789012345678'') two_lines
               \<lparr>verbose = False, bot_mediaUrl = None, bot_replyTo = Some (js ''777''),
                bot_accountId = None\<rparr>],
          requests = [],
          outcome = Inr \<lparr>messageId = js ''bot'', channelId = js ''channel:123456789012345678'',
                         channel = js ''discord''\<rparr>\<rparr>
   \<and> sendMediaWithWebhookFallback demo_world (demo_ctx\<lparr>agentId := None\<rparr>)
       = \<lparr>transports =
            [BotApi (js ''channel:123456789012345678'') two_lines
               \<lparr>verbose = False, bot_mediaUrl = Some demo_url, bot_replyTo = Some (js ''777''),
                bot_accountId = None\<rparr>],
          requests = [],
          outcome = Inr \<lparr>messageId = js ''bot'', channelId = js ''channel:123456789012345678'',
                         channel = js ''discord''\<rparr>\<rparr>"
proof -
  let ?o = "\<lparr>webhookUrl = js ''https://discord.test/api/webhooks/1/token'',
             identity = Some \<lparr>username = Some (fire @ js '' Ember''), avatarUrl = None\<rparr>,
             replyTo = None, threadId = None, maxLinesPerMessage = None, chunkMode = None,
             embeds = None\<rparr>"
  let ?c = "demo_ctx\<lparr>agentId := None\<rparr>"
  have c1: "webhook_conditions demo_world demo_ctx" by code_simp
  have c2: "truthy (mediaUrl demo_ctx)" by code_simp
  have c3: "\<not> webhook_conditions demo_world ?c" by code_simp
  have c4: "truthy (webhook_for ?c)" by code_simp
  have wf: "webhook_for demo_ctx = Some (js ''https://discord.test/api/webhooks/1/token'')"
    by code_simp
  have ri: "resolveWebhookIdentity demo_world (js ''ember'') None
              = Inr (Some \<lparr>username = Some (fire @ js '' Ember''), avatarUrl = None\<rparr>)"
    by code_simp
  have f: "agentId demo_ctx = Some (js ''ember'')" "ctx_text demo_ctx = two_lines"
    "mediaUrl demo_ctx = Some demo_url"
    by (simp_all add: demo_ctx_def)
  have st: "length (fst (sendDiscordWebhookText demo_world two_lines ?o)) = 2"
    "snd (sendDiscordWebhookText demo_world two_lines ?o)
       = Inr \<lparr>messageId = js ''m+'', channelId = js ''c1''\<rparr>"
    by code_simp+
  have sm: "length (fst (sendDiscordWebhookMedia demo_world two_lines demo_url ?o)) = 2"
    "snd (sendDiscordWebhookMedia demo_world two_lines demo_url ?o)
       = Inr \<lparr>messageId = js ''m'', channelId = js ''c1''\<rparr>"
    by code_simp+
  note t = webhook_only_if_conditions [of demo_world demo_ctx]
  note t' = webhook_only_if_conditions [of demo_world ?c]
  from t c1 wf ri f st
  have a: "sendTextWithWebhookFallback demo_world demo_ctx =
             \<lparr>transports = [WebhookText two_lines ?o],
              requests = fst (sendDiscordWebhookText demo_world two_lines ?o),
              outcome = Inr \<lparr>messageId = js ''m+'', channelId = js ''c1'', channel = js ''discord''\<rparr>\<rparr>"
    by (auto simp: Let_def)
  from t c1 c2 wf ri f sm
  have b: "sendMediaWithWebhookFallback demo_world demo_ctx =
             \<lparr>transports = [WebhookMedia two_lines demo_url ?o],
              requests = fst (sendDiscordWebhookMedia demo_world two_lines demo_url ?o),
              outcome = Inr \<lparr>messageId = js ''m'', channelId = js ''c1'', channel = js ''discord''\<rparr>\<rparr>"
    by (auto simp: Let_def)
  from t' c3
  have d: "sendTextWithWebhookFallback demo_world ?c
       = \<lparr>transports =
            [BotApi (js ''channel:123456789012345678'') two_lines
               \<lparr>verbose = False, bot_mediaUrl = None, bot_replyTo = Some (js ''777''),
                bot_accountId = None\<rparr>],
          requests = [],
          outcome = Inr \<lparr>messageId = js ''bot'', channelId = js ''channel:123456789012345678'',
                         channel = js ''discord''\<rparr>\<rparr>"
    by (simp add: Let_def demo_ctx_def demo_world_def)
  from t' c3
  have e: "sendMediaWithWebhookFallback demo_world ?c
       = \<lparr>transports =
            [BotApi (js ''channel:123456789012345678'') two_lines
               \<lparr>verbose = False, bot_mediaUrl = Some demo_url, bot_replyTo = Some (js ''777''),
                bot_accountId = None\<rparr>],
          requests = [],
          outcome = Inr \<lparr>messageId = js ''bot'', channelId = js ''channel:123456789012345678'',
                         channel = js ''discord''\<rparr>\<rparr>"
    by (simp add: Let_def demo_ctx_def demo_world_def)
  from c1 c2 c3 c4 a b d e st(1) sm(1) show ?thesis by simp
qed















end
